theory Spec2Isabelle
  imports Complex_Main
begin

section \<open>JavaScript values\<close>

text \<open>
  The forms library handles values of type \<open>any\<close>. The embedding represents the values
  that occur as control values and as error payloads. A number is a rational, an infinity
  or NaN (every finite double is a rational, and \<open><\<close> on doubles agrees with \<open><\<close> on
  the rationals they denote). A string is a list of characters; an object is the list of
  its own enumerable properties in insertion order.
\<close>

datatype jsnum = NaN | Fin rat | PosInf | NegInf

datatype jsval =
    JUndefined
  | JNull
  | JBool bool
  | JNum jsnum
  | JStr string
  | JArr "jsval list"
  | JObj "(string \<times> jsval) list"

type_synonym jsobject = "(string \<times> jsval) list"

text \<open>The relational operator \<open><\<close> on two numbers: false as soon as one side is NaN.\<close>

fun num_lt :: "jsnum \<Rightarrow> jsnum \<Rightarrow> bool" where
  "num_lt NaN _ = False"
| "num_lt _ NaN = False"
| "num_lt (Fin a) (Fin b) = (a < b)"
| "num_lt (Fin _) PosInf = True"
| "num_lt (Fin _) NegInf = False"
| "num_lt PosInf _ = False"
| "num_lt NegInf NegInf = False"
| "num_lt NegInf _ = True"

definition isNaN :: "jsnum \<Rightarrow> bool" where
  "isNaN n = (n = NaN)"

text \<open>Truthiness, as tested by \<open>if (x)\<close>, \<open>!x\<close> and \<open>x ? a : b\<close>.\<close>

fun truthy :: "jsval \<Rightarrow> bool" where
  "truthy JUndefined = False"
| "truthy JNull = False"
| "truthy (JBool b) = b"
| "truthy (JNum n) = (n \<noteq> NaN \<and> n \<noteq> Fin 0)"
| "truthy (JStr s) = (s \<noteq> [])"
| "truthy (JArr _) = True"
| "truthy (JObj _) = True"

text \<open>Reading the property \<open>length\<close> of a value that is neither null nor undefined.\<close>

fun js_length :: "jsval \<Rightarrow> jsval" where
  "js_length (JStr s) = JNum (Fin (of_nat (length s)))"
| "js_length (JArr xs) = JNum (Fin (of_nat (length xs)))"
| "js_length (JObj kvs) = (case map_of kvs ''length'' of Some v \<Rightarrow> v | None \<Rightarrow> JUndefined)"
| "js_length _ = JUndefined"

text \<open>
  What the JavaScript runtime supplies and the library only calls: \<open>parseFloat\<close>, the
  conversion to a number of a string or an object (the rest of \<open>ToNumber\<close> is written
  out below), and \<open>RegExp.prototype.test\<close>. They are parameters of the embedding.
\<close>

datatype RegExp = RegExp (source: string) (flags: string)

record host =
  parseFloat :: "jsval \<Rightarrow> jsnum"
  toNumberOther :: "jsval \<Rightarrow> jsnum"
  regexp_test :: "RegExp \<Rightarrow> jsval \<Rightarrow> bool"

fun ToNumber :: "host \<Rightarrow> jsval \<Rightarrow> jsnum" where
  "ToNumber h JUndefined = NaN"
| "ToNumber h JNull = Fin 0"
| "ToNumber h (JBool b) = Fin (if b then 1 else 0)"
| "ToNumber h (JNum n) = n"
| "ToNumber h v = toNumberOther h v"

text \<open>\<open>RegExp.prototype.toString\<close>: the source between slashes, followed by the flags.\<close>

definition RegExp_toString :: "RegExp \<Rightarrow> string" where
  "RegExp_toString r = ''/'' @ source r @ ''/'' @ flags r"

section \<open>Objects as property lists\<close>

text \<open>
  Assigning a property keeps the position of a key that is already present and appends a
  new key. The spread \<open>{...a, ...b}\<close> starts from the empty object and assigns the
  properties of \<open>a\<close>, then those of \<open>b\<close>.
\<close>

fun put :: "string \<Rightarrow> jsval \<Rightarrow> jsobject \<Rightarrow> jsobject" where
  "put k v [] = [(k, v)]"
| "put k v ((k', v') # kvs) = (if k = k' then (k, v) # kvs else (k', v') # put k v kvs)"

definition assign_all :: "jsobject \<Rightarrow> jsobject \<Rightarrow> jsobject" where
  "assign_all src tgt = fold (\<lambda>(k, v). put k v) src tgt"

definition spread2 :: "jsobject \<Rightarrow> jsobject \<Rightarrow> jsobject" where
  "spread2 a b = assign_all b (assign_all a [])"

definition Object_keys :: "jsobject \<Rightarrow> string list" where
  "Object_keys obj = map fst obj"

section \<open>Validators\<close>

text \<open>
  A validator sees the control through \<open>AbstractBindControl\<close>; the built-in validators
  read its \<open>value\<close> only. An error map is an object; \<open>None\<close> is \<open>null\<close>.
\<close>

record AbstractBindControl =
  value_c :: jsval

type_synonym ValidationBindErrors = jsobject

type_synonym 'c BindValidatorFn = "'c \<Rightarrow> ValidationBindErrors option"

definition isEmptyInputValue :: "jsval \<Rightarrow> bool" where
  "isEmptyInputValue v = (v = JUndefined \<or> v = JNull \<or> js_length v = JNum (Fin 0))"

text \<open>The numeric bound of \<open>min\<close> and \<open>max\<close> is a number or absent (null, undefined).\<close>

definition isEmptyInputValue_num :: "jsnum option \<Rightarrow> bool" where
  "isEmptyInputValue_num m = (m = None)"

definition BindValidators_min ::
  "host \<Rightarrow> jsnum option \<Rightarrow> 'a AbstractBindControl_scheme BindValidatorFn" where
  "BindValidators_min h mn control =
     (if isEmptyInputValue (value_c control) \<or> isEmptyInputValue_num mn then None
      else let v = parseFloat h (value_c control) in
        if \<not> isNaN v \<and> num_lt v (the mn)
        then Some [(''min'', JObj [(''min'', JNum (the mn)), (''actual'', value_c control)])]
        else None)"

definition BindValidators_max ::
  "host \<Rightarrow> jsnum option \<Rightarrow> 'a AbstractBindControl_scheme BindValidatorFn" where
  "BindValidators_max h mx control =
     (if isEmptyInputValue (value_c control) \<or> isEmptyInputValue_num mx then None
      else let v = parseFloat h (value_c control) in
        if \<not> isNaN v \<and> num_lt (the mx) v
        then Some [(''max'', JObj [(''max'', JNum (the mx)), (''actual'', value_c control)])]
        else None)"

definition BindValidators_required :: "'a AbstractBindControl_scheme BindValidatorFn" where
  "BindValidators_required control =
     (if isEmptyInputValue (value_c control) then Some [(''required'', JBool True)] else None)"

definition BindValidators_requiredTrue :: "'a AbstractBindControl_scheme BindValidatorFn" where
  "BindValidators_requiredTrue control =
     (if value_c control = JBool True then None else Some [(''required'', JBool True)])"

text \<open>The source of \<open>EMAIL_REGEXP\<close>; what it matches is decided by the host's \<open>test\<close>.\<close>

definition EMAIL_REGEXP :: RegExp where
  "EMAIL_REGEXP = RegExp
     (''^(?=.{1,254}$)(?=.{1,64}@)[a-zA-Z0-9!#$%&'' @ [CHR 0x27] @ ''*+/=?^_'' @ [CHR 0x60]
      @ ''{|}~-]+(?:'' @ [CHR 0x5C] @ ''.[a-zA-Z0-9!#$%&'' @ [CHR 0x27] @ ''*+/=?^_''
      @ [CHR 0x60] @ ''{|}~-]+)*@[a-zA-Z0-9](?:[a-zA-Z0-9-]{0,61}[a-zA-Z0-9])?(?:''
      @ [CHR 0x5C] @ ''.[a-zA-Z0-9](?:[a-zA-Z0-9-]{0,61}[a-zA-Z0-9])?)*$'') ''''"

definition BindValidators_email :: "host \<Rightarrow> 'a AbstractBindControl_scheme BindValidatorFn" where
  "BindValidators_email h control =
     (if isEmptyInputValue (value_c control) then None
      else if regexp_test h EMAIL_REGEXP (value_c control) then None
      else Some [(''email'', JBool True)])"

definition BindValidators_minLength ::
  "host \<Rightarrow> jsnum \<Rightarrow> 'a AbstractBindControl_scheme BindValidatorFn" where
  "BindValidators_minLength h minLength control =
     (if isEmptyInputValue (value_c control) then None
      else let len = (if truthy (value_c control) then js_length (value_c control)
                      else JNum (Fin 0)) in
        if num_lt (ToNumber h len) minLength
        then Some [(''minlength'',
                    JObj [(''requiredLength'', JNum minLength), (''actualLength'', len)])]
        else None)"

definition BindValidators_maxLength ::
  "host \<Rightarrow> jsnum \<Rightarrow> 'a AbstractBindControl_scheme BindValidatorFn" where
  "BindValidators_maxLength h maxLength control =
     (let len = (if truthy (value_c control) then js_length (value_c control)
                 else JNum (Fin 0)) in
        if num_lt maxLength (ToNumber h len)
        then Some [(''maxlength'',
                    JObj [(''requiredLength'', JNum maxLength), (''actualLength'', len)])]
        else None)"

definition BindValidators_nullValidator :: "'c BindValidatorFn" where
  "BindValidators_nullValidator control = None"

text \<open>
  The argument of \<open>pattern\<close>: a string, a \<open>RegExp\<close>, or null/undefined. \<open>!pattern\<close>
  holds of null, undefined and the empty string.
\<close>

datatype pattern_arg = PNull | PString string | PRegExp RegExp

fun pattern_falsy :: "pattern_arg \<Rightarrow> bool" where
  "pattern_falsy PNull = True"
| "pattern_falsy (PString s) = (s = [])"
| "pattern_falsy (PRegExp _) = False"

text \<open>\<open>s.charAt(i)\<close> is the one-character string at \<open>i\<close>, or the empty string.\<close>

definition charAt :: "string \<Rightarrow> int \<Rightarrow> string" where
  "charAt s i = (if 0 \<le> i \<and> i < int (length s) then [s ! nat i] else [])"

definition pattern_regexStr :: "string \<Rightarrow> string" where
  "pattern_regexStr p =
     (let regexStr = [];
          regexStr = (if charAt p 0 \<noteq> ''^'' then regexStr @ ''^'' else regexStr);
          regexStr = regexStr @ p;
          regexStr = (if charAt p (int (length p) - 1) \<noteq> ''$'' then regexStr @ ''$''
                      else regexStr)
      in regexStr)"

definition pattern_check ::
  "host \<Rightarrow> RegExp \<Rightarrow> string \<Rightarrow> 'a AbstractBindControl_scheme BindValidatorFn" where
  "pattern_check h regex regexStr control =
     (if isEmptyInputValue (value_c control) then None
      else if regexp_test h regex (value_c control) then None
      else Some [(''pattern'', JObj [(''requiredPattern'', JStr regexStr),
                                     (''actualValue'', value_c control)])])"

definition BindValidators_pattern ::
  "host \<Rightarrow> pattern_arg \<Rightarrow> 'a AbstractBindControl_scheme BindValidatorFn" where
  "BindValidators_pattern h p =
     (if pattern_falsy p then BindValidators_nullValidator
      else case p of
        PString s \<Rightarrow> pattern_check h (RegExp (pattern_regexStr s) []) (pattern_regexStr s)
      | PRegExp r \<Rightarrow> pattern_check h r (RegExp_toString r)
      | PNull \<Rightarrow> BindValidators_nullValidator)"

subsection \<open>Composition\<close>

definition isPresent :: "'a option \<Rightarrow> bool" where
  "isPresent o' = (o' \<noteq> None)"

definition executeValidators :: "'c \<Rightarrow> 'c BindValidatorFn list \<Rightarrow> ValidationBindErrors option list" where
  "executeValidators control validators = map (\<lambda>v. v control) validators"

definition mergeErrors :: "ValidationBindErrors option list \<Rightarrow> ValidationBindErrors option" where
  "mergeErrors arrayOfErrors =
     (let res = fold (\<lambda>errors res. case errors of Some e \<Rightarrow> spread2 res e | None \<Rightarrow> res)
                  arrayOfErrors []
      in if length (Object_keys res) = 0 then None else Some res)"

definition BindValidators_compose ::
  "'c BindValidatorFn option list option \<Rightarrow> 'c BindValidatorFn option" where
  "BindValidators_compose validators =
     (case validators of
        None \<Rightarrow> None
      | Some vs \<Rightarrow>
          let presentValidators = map the (filter isPresent vs) in
          if length presentValidators = 0 then None
          else Some (\<lambda>control. mergeErrors (executeValidators control presentValidators)))"


subsection \<open>Asynchronous composition\<close>

text \<open>
  An asynchronous validator returns a promise or an observable, here a value of the type
  \<open>'r\<close> of asynchronous results; calling it may throw. The operators of the reactive
  library (\<open>forkJoin\<close>, \<open>map\<close>, \<open>from\<close>) and the two type tests of the framework are
  parameters: the library calls them, it does not define them.
\<close>

datatype error = Error string

type_synonym ('c, 'r) AsyncBindValidatorFn = "'c \<Rightarrow> error + 'r"

record 'r rx =
  isPromise :: "'r \<Rightarrow> bool"
  isObservable :: "'r \<Rightarrow> bool"
  rx_from :: "'r \<Rightarrow> 'r"
  forkJoin :: "'r list \<Rightarrow> 'r"
  rx_map :: "(ValidationBindErrors option list \<Rightarrow> ValidationBindErrors option) \<Rightarrow> 'r \<Rightarrow> 'r"

definition toObservable :: "'r rx \<Rightarrow> 'r \<Rightarrow> error + 'r" where
  "toObservable x r =
     (let obs = (if isPromise x r then rx_from x r else r) in
      if \<not> isObservable x obs
      then Inl (Error ''Expected validator to return Promise or Observable.'')
      else Inr obs)"

text \<open>\<open>xs.map(f)\<close> where \<open>f\<close> may throw: the first exception ends the traversal.\<close>

fun map_throwing :: "('a \<Rightarrow> error + 'b) \<Rightarrow> 'a list \<Rightarrow> error + 'b list" where
  "map_throwing f [] = Inr []"
| "map_throwing f (x # xs) =
     (case f x of
        Inl e \<Rightarrow> Inl e
      | Inr y \<Rightarrow> (case map_throwing f xs of Inl e \<Rightarrow> Inl e | Inr ys \<Rightarrow> Inr (y # ys)))"

definition executeAsyncValidators ::
  "'c \<Rightarrow> ('c, 'r) AsyncBindValidatorFn list \<Rightarrow> error + 'r list" where
  "executeAsyncValidators control validators = map_throwing (\<lambda>v. v control) validators"

definition BindValidators_composeAsync ::
  "'r rx \<Rightarrow> ('c, 'r) AsyncBindValidatorFn option list option
     \<Rightarrow> ('c, 'r) AsyncBindValidatorFn option" where
  "BindValidators_composeAsync x validators =
     (case validators of
        None \<Rightarrow> None
      | Some vs \<Rightarrow>
          let presentValidators = map the (filter isPresent vs) in
          if length presentValidators = 0 then None
          else Some (\<lambda>control.
            case executeAsyncValidators control presentValidators of
              Inl e \<Rightarrow> Inl e
            | Inr results \<Rightarrow>
                (case map_throwing (toObservable x) results of
                   Inl e \<Rightarrow> Inl e
                 | Inr observables \<Rightarrow> Inr (rx_map x mergeErrors (forkJoin x observables)))))"

subsection \<open>Normalising directive validators\<close>

text \<open>
  A directive holds validators as plain functions or as objects with a \<open>validate\<close>
  method (which may also offer \<open>registerOnValidatorChange\<close>).
\<close>

datatype 'f validator_arg =
    ValidatorFn 'f
  | ValidatorObject (validate: 'f) (has_registerOnValidatorChange: bool)

fun normalizeValidator :: "('c BindValidatorFn) validator_arg \<Rightarrow> 'c BindValidatorFn" where
  "normalizeValidator (ValidatorObject vd _) = (\<lambda>c. vd c)"
| "normalizeValidator (ValidatorFn f) = f"

fun normalizeAsyncValidator ::
  "(('c, 'r) AsyncBindValidatorFn) validator_arg \<Rightarrow> ('c, 'r) AsyncBindValidatorFn" where
  "normalizeAsyncValidator (ValidatorObject vd _) = (\<lambda>c. vd c)"
| "normalizeAsyncValidator (ValidatorFn f) = f"

definition composeValidators ::
  "('c BindValidatorFn) validator_arg list option \<Rightarrow> 'c BindValidatorFn option" where
  "composeValidators validators =
     (case validators of
        Some vs \<Rightarrow> BindValidators_compose (Some (map (\<lambda>v. Some (normalizeValidator v)) vs))
      | None \<Rightarrow> None)"

definition composeAsyncValidators ::
  "'r rx \<Rightarrow> (('c, 'r) AsyncBindValidatorFn) validator_arg list option
     \<Rightarrow> ('c, 'r) AsyncBindValidatorFn option" where
  "composeAsyncValidators x validators =
     (case validators of
        Some vs \<Rightarrow>
          BindValidators_composeAsync x (Some (map (\<lambda>v. Some (normalizeAsyncValidator v)) vs))
      | None \<Rightarrow> None)"


section \<open>Binding a control to a directive\<close>

datatype BindFormHooks = change | blur | submit

text \<open>
  A transformer is invoked through \<open>Function.prototype.apply\<close> with an argument list, so
  it is a function of that list. A JavaScript function of one parameter reads the first
  argument, or \<open>undefined\<close> when the list is empty.
\<close>

type_synonym BindTransformerFn = "jsval list \<Rightarrow> jsval"

definition unary :: "(jsval \<Rightarrow> jsval) \<Rightarrow> BindTransformerFn" where
  "unary f args = f (case args of [] \<Rightarrow> JUndefined | a # _ \<Rightarrow> a)"

text \<open>
  The fields of \<open>BindFormControl\<close> that the binding layer reads and writes. The class
  is declared in \<open>model.ts\<close>; \<open>dirty\<close> and \<open>touched\<close> are the status it tracks.
\<close>

record 'r BindFormControl = AbstractBindControl +
  pendingValue :: jsval
  pendingChange :: bool
  pendingDirty :: bool
  pendingTouched :: bool
  updateOn :: BindFormHooks
  transformer :: "BindTransformerFn option"
  validator :: "AbstractBindControl BindValidatorFn option"
  asyncValidator :: "(AbstractBindControl, 'r) AsyncBindValidatorFn option"
  dirty :: bool
  touched :: bool

text \<open>
  Calls that leave the binding layer: into the value accessor (the view), into the
  directive, into the control model and into validator objects. They are recorded in
  order, oldest first.
\<close>

datatype effect =
    Accessor_writeValue jsval
  | Accessor_registerOnChange
  | Accessor_registerOnTouched
  | Control_registerOnChange
  | Control_registerOnDisabledChange
  | Validator_registerOnValidatorChange
  | Control_setValue jsval bool
  | Control_markAsDirty
  | Control_markAsTouched
  | Dir_viewToModelUpdate jsval

record 'r binding =
  control :: "'r BindFormControl"
  trace :: "effect list"

definition call :: "effect \<Rightarrow> 'r binding \<Rightarrow> 'r binding" where
  "call e b = b\<lparr>trace := trace b @ [e]\<rparr>"

text \<open>
  Modelled from the spec: the methods \<open>setValue\<close>, \<open>markAsDirty\<close> and
  \<open>markAsTouched\<close> of \<open>BindFormControl\<close> (declared in \<open>model.ts\<close>, whose text is
  missing). The control model
  "holds value + status" and the library "tracks validity/dirty/touched status": each
  method is recorded as a call and updates the field it is named after. The flag of
  \<open>setValue\<close> is its option \<open>emitModelToViewChange\<close>.
\<close>

definition setValue :: "jsval \<Rightarrow> bool \<Rightarrow> 'r binding \<Rightarrow> 'r binding" where
  "setValue v emitModelToViewChange b =
     call (Control_setValue v emitModelToViewChange) (b\<lparr>control := (control b)\<lparr>value_c := v\<rparr>\<rparr>)"

definition markAsDirty :: "'r binding \<Rightarrow> 'r binding" where
  "markAsDirty b = call Control_markAsDirty (b\<lparr>control := (control b)\<lparr>dirty := True\<rparr>\<rparr>)"

definition markAsTouched :: "'r binding \<Rightarrow> 'r binding" where
  "markAsTouched b = call Control_markAsTouched (b\<lparr>control := (control b)\<lparr>touched := True\<rparr>\<rparr>)"

text \<open>
  \<open>a !== b\<close>. NaN differs from itself. Arrays and objects are compared by content: the
  embedding has no object identities.
\<close>

fun strict_neq :: "jsval \<Rightarrow> jsval \<Rightarrow> bool" where
  "strict_neq (JNum a) (JNum b) = (a = NaN \<or> a \<noteq> b)"
| "strict_neq a b = (a \<noteq> b)"

definition updateControl :: "'r binding \<Rightarrow> 'r binding" where
  "updateControl b0 =
     (let b1 = (if pendingDirty (control b0) then markAsDirty b0 else b0);
          b2 = (case transformer (control b1) of
                  Some t \<Rightarrow> b1\<lparr>control := (control b1)
                              \<lparr>pendingValue := t [JBool (pendingChange (control b1))]\<rparr>\<rparr>
                | None \<Rightarrow> b1);
          b3 = setValue (pendingValue (control b2)) False b2;
          b4 = call (Dir_viewToModelUpdate (pendingValue (control b3))) b3
      in b4\<lparr>control := (control b4)\<lparr>pendingChange := False\<rparr>\<rparr>)"

text \<open>The callback that \<open>setUpViewChangePipeline\<close> registers with the value accessor.\<close>

definition setUpViewChangePipeline_onChange :: "jsval \<Rightarrow> 'r binding \<Rightarrow> 'r binding" where
  "setUpViewChangePipeline_onChange newValue b0 =
     (let (transformedValue, b1) =
            (case transformer (control b0) of
               Some t \<Rightarrow>
                 (let tv = t [newValue] in
                  (tv, if strict_neq tv newValue then call (Accessor_writeValue tv) b0 else b0))
             | None \<Rightarrow> (newValue, b0));
          b2 = b1\<lparr>control := (control b1)
                 \<lparr>pendingValue := transformedValue, pendingChange := True, pendingDirty := True\<rparr>\<rparr>
      in if updateOn (control b2) = change then updateControl b2 else b2)"

definition setUpViewChangePipeline :: "'r binding \<Rightarrow> 'r binding" where
  "setUpViewChangePipeline b = call Accessor_registerOnChange b"

text \<open>The callback that \<open>setUpBlurPipeline\<close> registers with the value accessor.\<close>

definition setUpBlurPipeline_onTouched :: "'r binding \<Rightarrow> 'r binding" where
  "setUpBlurPipeline_onTouched b0 =
     (let b1 = b0\<lparr>control := (control b0)\<lparr>pendingTouched := True\<rparr>\<rparr>;
          b2 = (if updateOn (control b1) = blur \<and> pendingChange (control b1)
                then updateControl b1 else b1)
      in if updateOn (control b2) \<noteq> submit then markAsTouched b2 else b2)"

definition setUpBlurPipeline :: "'r binding \<Rightarrow> 'r binding" where
  "setUpBlurPipeline b = call Accessor_registerOnTouched b"

text \<open>
  The callback that \<open>setUpModelChangePipeline\<close> registers with the control. It calls
  \<open>control.transformer.apply(undefined, control)\<close>: the second argument of \<open>apply\<close> is
  read as an array-like object, and a form control has no \<open>length\<close>, so the transformer
  receives the empty argument list.
\<close>

definition setUpModelChangePipeline_onChange ::
  "jsval \<Rightarrow> bool \<Rightarrow> 'r binding \<Rightarrow> 'r binding" where
  "setUpModelChangePipeline_onChange newValue emitModelEvent b0 =
     (let transformedValue =
            (case transformer (control b0) of Some t \<Rightarrow> t [] | None \<Rightarrow> newValue);
          b1 = call (Accessor_writeValue transformedValue) b0
      in if emitModelEvent then call (Dir_viewToModelUpdate transformedValue) b1 else b1)"

definition setUpModelChangePipeline :: "'r binding \<Rightarrow> 'r binding" where
  "setUpModelChangePipeline b = call Control_registerOnChange b"

subsection \<open>Submission\<close>

text \<open>
  Modelled from the spec: \<open>_syncPendingControls\<close> of the control model (declared in
  \<open>model.ts\<close>, whose text is missing). The updateOn strategy is "the event (change, blur, submit) that triggers
  propagation of a pending view value into the control model": on submission, a control
  whose strategy is \<open>submit\<close> and that has a pending change receives its pending value.
  A form applies this to each of its controls.
\<close>

definition control_syncPendingControls :: "'r binding \<Rightarrow> 'r binding" where
  "control_syncPendingControls b =
     (if updateOn (control b) = submit \<and> pendingChange (control b)
      then setValue (pendingValue (control b)) False b else b)"

definition form_syncPendingControls :: "'r binding list \<Rightarrow> 'r binding list" where
  "form_syncPendingControls form = map control_syncPendingControls form"

text \<open>
  \<open>syncPendingControls(form, directives)\<close>. The state is the list of the directives'
  bindings, each with the control of the form that the directive is bound to.
\<close>

definition syncPendingControls_dir :: "'r binding \<Rightarrow> 'r binding" where
  "syncPendingControls_dir b =
     (if updateOn (control b) = submit \<and> pendingChange (control b)
      then (let b1 = call (Dir_viewToModelUpdate (pendingValue (control b))) b
            in b1\<lparr>control := (control b1)\<lparr>pendingChange := False\<rparr>\<rparr>)
      else b)"

definition syncPendingControls :: "'r binding list \<Rightarrow> 'r binding list" where
  "syncPendingControls directives = map syncPendingControls_dir (form_syncPendingControls directives)"


subsection \<open>Errors raised by the binding layer\<close>

fun join :: "string \<Rightarrow> string list \<Rightarrow> string" where
  "join sep [] = []"
| "join sep [x] = x"
| "join sep (x # y # ys) = x @ sep @ join sep (y # ys)"

text \<open>\<open>_throwError(dir, message)\<close> always throws; the message ends with the directive's path.\<close>

definition throwError :: "string list \<Rightarrow> string \<Rightarrow> error" where
  "throwError dir_path message =
     (let messageEnd =
            (if length dir_path > 1 then ''path: '' @ [CHR 0x27] @ join '' -> '' dir_path @ [CHR 0x27]
             else if dir_path \<noteq> [] \<and> hd dir_path \<noteq> [] then ''name: '' @ [CHR 0x27] @ join '','' dir_path @ [CHR 0x27]
             else ''unspecified name attribute'')
      in Error (message @ '' '' @ messageEnd))"

subsection \<open>Value accessors\<close>

text \<open>
  The class of a value accessor: the default accessor, one of the six built-in
  accessors, or any other class (a custom accessor, by its name).
\<close>

datatype accessor_class =
    DefaultBindValueAccessor
  | CheckboxControlBindValueAccessor
  | RangeBindValueAccessor
  | NumberBindValueAccessor
  | SelectControlBindValueAccessor
  | SelectMultipleControlBindValueAccessor
  | RadioControlBindValueAccessor
  | CustomAccessor string

record ControlBindValueAccessor =
  constructor_c :: accessor_class
  has_setDisabledState :: bool

definition BUILTIN_ACCESSORS :: "accessor_class list" where
  "BUILTIN_ACCESSORS =
     [CheckboxControlBindValueAccessor, RangeBindValueAccessor, NumberBindValueAccessor,
      SelectControlBindValueAccessor, SelectMultipleControlBindValueAccessor,
      RadioControlBindValueAccessor]"

definition isBuiltInAccessor :: "'a ControlBindValueAccessor_scheme \<Rightarrow> bool" where
  "isBuiltInAccessor valueAccessor = list_ex (\<lambda>a. constructor_c valueAccessor = a) BUILTIN_ACCESSORS"

text \<open>
  The argument \<open>valueAccessors\<close> of \<open>selectValueAccessor\<close>: falsy (null, undefined),
  something that is not an array, or an array of accessors.
\<close>

datatype 'a accessors_arg = NoAccessors | NotAnArray | Accessors "'a list"

text \<open>The three variables that the loop of \<open>selectValueAccessor\<close> assigns.\<close>

record 'a selection =
  defaultAccessor :: "'a option"
  builtinAccessor :: "'a option"
  customAccessor :: "'a option"

fun selectValueAccessor_loop ::
  "string list \<Rightarrow> 'a ControlBindValueAccessor_scheme list
     \<Rightarrow> 'a ControlBindValueAccessor_scheme selection
     \<Rightarrow> error + 'a ControlBindValueAccessor_scheme selection" where
  "selectValueAccessor_loop dir_path [] sel = Inr sel"
| "selectValueAccessor_loop dir_path (v # vs) sel =
     (if constructor_c v = DefaultBindValueAccessor
      then selectValueAccessor_loop dir_path vs (sel\<lparr>defaultAccessor := Some v\<rparr>)
      else if isBuiltInAccessor v
      then (if builtinAccessor sel \<noteq> None
            then Inl (throwError dir_path
                   ''More than one built-in value accessor matches form control with'')
            else selectValueAccessor_loop dir_path vs (sel\<lparr>builtinAccessor := Some v\<rparr>))
      else (if customAccessor sel \<noteq> None
            then Inl (throwError dir_path
                   ''More than one custom value accessor matches form control with'')
            else selectValueAccessor_loop dir_path vs (sel\<lparr>customAccessor := Some v\<rparr>)))"

definition selectValueAccessor ::
  "string list \<Rightarrow> 'a ControlBindValueAccessor_scheme accessors_arg
     \<Rightarrow> error + 'a ControlBindValueAccessor_scheme option" where
  "selectValueAccessor dir_path valueAccessors =
     (case valueAccessors of
        NoAccessors \<Rightarrow> Inr None
      | NotAnArray \<Rightarrow>
          Inl (throwError dir_path
                 ''Value accessor was not provided as an array for form control with'')
      | Accessors vs \<Rightarrow>
          (case selectValueAccessor_loop dir_path vs
                  \<lparr>defaultAccessor = None, builtinAccessor = None, customAccessor = None\<rparr> of
             Inl e \<Rightarrow> Inl e
           | Inr sel \<Rightarrow>
               if customAccessor sel \<noteq> None then Inr (customAccessor sel)
               else if builtinAccessor sel \<noteq> None then Inr (builtinAccessor sel)
               else if defaultAccessor sel \<noteq> None then Inr (defaultAccessor sel)
               else Inl (throwError dir_path ''No valid value accessor for form control with'')))"

subsection \<open>Setting up a control\<close>

text \<open>
  The directive as \<open>setUpControl\<close> reads it. The directive classes compute
  \<open>validator\<close> and \<open>asyncValidator\<close> from the raw validators with
  \<open>composeValidators\<close> and \<open>composeAsyncValidators\<close>.
\<close>

record 'r NgBindControl =
  path :: "string list"
  valueAccessor :: "ControlBindValueAccessor option"
  rawValidators :: "(AbstractBindControl BindValidatorFn) validator_arg list"
  rawAsyncValidators :: "((AbstractBindControl, 'r) AsyncBindValidatorFn) validator_arg list"

definition dir_validator :: "'r NgBindControl \<Rightarrow> AbstractBindControl BindValidatorFn option" where
  "dir_validator dir = composeValidators (Some (rawValidators dir))"

definition dir_asyncValidator ::
  "'r rx \<Rightarrow> 'r NgBindControl \<Rightarrow> (AbstractBindControl, 'r) AsyncBindValidatorFn option" where
  "dir_asyncValidator x dir = composeAsyncValidators x (Some (rawAsyncValidators dir))"

definition registerOnValidatorChange_all :: "'f validator_arg list \<Rightarrow> 'r binding \<Rightarrow> 'r binding" where
  "registerOnValidatorChange_all validators b =
     fold (\<lambda>v b. case v of
                    ValidatorObject _ True \<Rightarrow> call Validator_registerOnValidatorChange b
                  | _ \<Rightarrow> b) validators b"

definition setUpControl ::
  "'r rx \<Rightarrow> 'r BindFormControl option \<Rightarrow> 'r NgBindControl \<Rightarrow> error + 'r binding" where
  "setUpControl x control_arg dir =
     (case control_arg of
        None \<Rightarrow> Inl (throwError (path dir) ''Cannot find control with'')
      | Some c \<Rightarrow>
     (case valueAccessor dir of
        None \<Rightarrow> Inl (throwError (path dir) ''No value accessor for form control with'')
      | Some acc \<Rightarrow>
          (let c1 = c\<lparr>validator := BindValidators_compose (Some [validator c, dir_validator dir])\<rparr>;
               c2 = c1\<lparr>asyncValidator :=
                          BindValidators_composeAsync x
                            (Some [asyncValidator c1, dir_asyncValidator x dir])\<rparr>;
               b0 = call (Accessor_writeValue (value_c c2)) \<lparr>control = c2, trace = []\<rparr>;
               b1 = setUpViewChangePipeline b0;
               b2 = setUpModelChangePipeline b1;
               b3 = setUpBlurPipeline b2;
               b4 = (if has_setDisabledState acc then call Control_registerOnDisabledChange b3
                     else b3);
               b5 = registerOnValidatorChange_all (rawValidators dir) b4;
               b6 = registerOnValidatorChange_all (rawAsyncValidators dir) b5
           in Inr b6)))"

section \<open>Notions used to state the properties\<close>

text \<open>
  The property map of an error map (\<open>null\<close> has no properties), and the key-union of a
  list of error maps, in which a later map overrides an earlier one on a shared key.
\<close>

definition error_map :: "ValidationBindErrors option \<Rightarrow> (string \<rightharpoonup> jsval)" where
  "error_map e = (case e of None \<Rightarrow> Map.empty | Some kvs \<Rightarrow> map_of kvs)"

definition key_union :: "ValidationBindErrors option list \<Rightarrow> (string \<rightharpoonup> jsval)" where
  "key_union es = fold (\<lambda>e m. m ++ error_map e) es Map.empty"

text \<open>A property list denotes an object when no key occurs twice.\<close>

definition wf_object :: "jsobject \<Rightarrow> bool" where
  "wf_object obj = distinct (map fst obj)"

definition wf_errors :: "ValidationBindErrors option \<Rightarrow> bool" where
  "wf_errors e = (case e of None \<Rightarrow> True | Some kvs \<Rightarrow> wf_object kvs)"

text \<open>The body of the loop of \<open>_mergeErrors\<close>.\<close>

definition merge_step :: "ValidationBindErrors option \<Rightarrow> jsobject \<Rightarrow> jsobject" where
  "merge_step errors res = (case errors of Some e \<Rightarrow> spread2 res e | None \<Rightarrow> res)"

text \<open>The validators of a list that are present (neither null nor undefined), in order.\<close>

definition present_validators :: "'f option list \<Rightarrow> 'f list" where
  "present_validators vs = [f. Some f \<leftarrow> vs]"

text \<open>The result of a validator: \<open>null\<close>, or an error map with at least one key.\<close>

definition null_or_nonempty :: "ValidationBindErrors option \<Rightarrow> bool" where
  "null_or_nonempty r = (case r of None \<Rightarrow> True | Some e \<Rightarrow> e \<noteq> [])"

text \<open>
  A pattern string anchored at both ends: \<open>^\<close> in front unless the string starts with
  it, \<open>$\<close> behind unless the string ends with it.
\<close>

definition anchored :: "string \<Rightarrow> string" where
  "anchored s = (if take 1 s = ''^'' then [] else ''^'') @ s
                @ (if s \<noteq> [] \<and> last s = CHR ''$'' then [] else ''$'')"

text \<open>
  A host for the examples: \<open>parseFloat\<close> returns a number as it is and NaN otherwise,
  and no regular expression matches.
\<close>

definition host_example :: host where
  "host_example = \<lparr>parseFloat = (\<lambda>v. case v of JNum n \<Rightarrow> n | _ \<Rightarrow> NaN),
                   toNumberOther = (\<lambda>v. NaN),
                   regexp_test = (\<lambda>r v. False)\<rparr>"

text \<open>
  The three kinds of value accessor: the default accessor, a built-in accessor, and a
  custom accessor (any other class).
\<close>

definition is_default :: "'a ControlBindValueAccessor_scheme \<Rightarrow> bool" where
  "is_default v = (constructor_c v = DefaultBindValueAccessor)"

definition is_builtin :: "'a ControlBindValueAccessor_scheme \<Rightarrow> bool" where
  "is_builtin v = (constructor_c v \<in> {CheckboxControlBindValueAccessor, RangeBindValueAccessor,
      NumberBindValueAccessor, SelectControlBindValueAccessor,
      SelectMultipleControlBindValueAccessor, RadioControlBindValueAccessor})"

definition is_custom :: "'a ControlBindValueAccessor_scheme \<Rightarrow> bool" where
  "is_custom v = (\<exists>name. constructor_c v = CustomAccessor name)"

text \<open>The last element of a list, or a previous choice when the list is empty.\<close>

definition latest :: "'a list \<Rightarrow> 'a option \<Rightarrow> 'a option" where
  "latest xs prev = (if xs = [] then prev else Some (last xs))"

text \<open>The two errors for an accessor list with more than one candidate of a kind.\<close>

definition selection_errors :: "string list \<Rightarrow> error set" where
  "selection_errors dp =
     {throwError dp ''More than one built-in value accessor matches form control with'',
      throwError dp ''More than one custom value accessor matches form control with''}"

text \<open>Whether a variable of the selection loop already holds an accessor.\<close>

definition occupied :: "'a option \<Rightarrow> nat" where
  "occupied x = (if x = None then 0 else 1)"

text \<open>An accessor of a given class, for the examples.\<close>

definition acc :: "accessor_class \<Rightarrow> ControlBindValueAccessor" where
  "acc k = \<lparr>constructor_c = k, has_setDisabledState = False\<rparr>"

text \<open>The values passed to \<open>control.setValue\<close> in a trace, in order.\<close>

fun setValue_calls :: "effect list \<Rightarrow> jsval list" where
  "setValue_calls [] = []"
| "setValue_calls (Control_setValue v _ # es) = v # setValue_calls es"
| "setValue_calls (_ # es) = setValue_calls es"

text \<open>The calls that an operation adds to the trace of a binding.\<close>

definition emitted :: "('r binding \<Rightarrow> 'r binding) \<Rightarrow> 'r binding \<Rightarrow> effect list" where
  "emitted f b = drop (length (trace b)) (trace (f b))"

text \<open>The view value after the transformer, when the control has one.\<close>

definition view_value :: "BindTransformerFn option \<Rightarrow> jsval \<Rightarrow> jsval" where
  "view_value t newValue = (case t of None \<Rightarrow> newValue | Some f \<Rightarrow> f [newValue])"

text \<open>
  The state in the middle of the view-change callback: the view value is buffered in the
  pending fields and \<open>updateControl\<close> has not run.
\<close>

definition buffered :: "jsval \<Rightarrow> 'r binding \<Rightarrow> 'r binding" where
  "buffered newValue b =
     (let tv = view_value (transformer (control b)) newValue in
      b\<lparr>trace := trace b @ (if transformer (control b) \<noteq> None \<and> strict_neq tv newValue
                            then [Accessor_writeValue tv] else []),
        control := (control b)\<lparr>pendingValue := tv, pendingChange := True, pendingDirty := True\<rparr>\<rparr>)"

text \<open>A fresh control and its binding, for the examples.\<close>

definition control_example :: "unit BindFormControl" where
  "control_example =
     \<lparr>value_c = JStr [], pendingValue = JNull, pendingChange = False, pendingDirty = False,
      pendingTouched = False, updateOn = change, transformer = None, validator = None,
      asyncValidator = None, dirty = False, touched = False\<rparr>"

definition binding_example :: "BindFormHooks \<Rightarrow> BindTransformerFn option \<Rightarrow> unit binding" where
  "binding_example strategy t =
     \<lparr>control = control_example\<lparr>updateOn := strategy, transformer := t\<rparr>, trace = []\<rparr>"

text \<open>What \<open>toObservable\<close> returns for a result that it accepts.\<close>

definition as_observable :: "'r rx \<Rightarrow> 'r \<Rightarrow> 'r" where
  "as_observable x r = (if isPromise x r then rx_from x r else r)"

text \<open>What a control reports through its validator; a control without validator reports nothing.\<close>

definition run_validator :: "'c BindValidatorFn option \<Rightarrow> 'c \<Rightarrow> ValidationBindErrors option" where
  "run_validator v c = (case v of None \<Rightarrow> None | Some f \<Rightarrow> f c)"

text \<open>
  A reactive library for the examples. A stream is the list of its emissions, and an
  emission is a list of error maps (one error map for a validator's stream, one per
  joined stream after \<open>forkJoin\<close>). \<open>forkJoin\<close> emits the last emissions of its
  streams once, provided each has emitted.
\<close>

type_synonym stream_example = "ValidationBindErrors option list list"

definition rx_example :: "stream_example rx" where
  "rx_example =
     \<lparr>isPromise = (\<lambda>r. False),
      isObservable = (\<lambda>r. True),
      rx_from = (\<lambda>r. r),
      forkJoin = (\<lambda>os. if list_all (\<lambda>o'. o' \<noteq> []) os then [concat (map last os)] else []),
      rx_map = (\<lambda>f o'. map (\<lambda>es. [f es]) o')\<rparr>"

definition async_example ::
  "ValidationBindErrors option \<Rightarrow> (AbstractBindControl, stream_example) AsyncBindValidatorFn" where
  "async_example e = (\<lambda>c. Inr [[e]])"

text \<open>A directive and a control with one validator each, for the examples.\<close>

definition dir_example :: "stream_example NgBindControl" where
  "dir_example =
     \<lparr>path = [''first''],
      valueAccessor = Some (acc DefaultBindValueAccessor),
      rawValidators = [ValidatorObject BindValidators_required True],
      rawAsyncValidators = []\<rparr>"

definition control_example2 :: "stream_example BindFormControl" where
  "control_example2 =
     \<lparr>value_c = JStr [], pendingValue = JNull, pendingChange = False, pendingDirty = False,
      pendingTouched = False, updateOn = change, transformer = None,
      validator = Some BindValidators_requiredTrue,
      asyncValidator = None, dirty = False, touched = False\<rparr>"

section \<open>Merging error maps\<close>

lemma map_of_put: "map_of (put k v kvs) = (map_of kvs)(k \<mapsto> v)"
  by (induction kvs) auto

lemma keys_put:
  "map fst (put k v kvs) = (if k \<in> set (map fst kvs) then map fst kvs else map fst kvs @ [k])"
  by (induction kvs) force+

lemma wf_put: "wf_object kvs \<Longrightarrow> wf_object (put k v kvs)"
  by (simp add: wf_object_def keys_put)

lemma wf_assign_all: "wf_object tgt \<Longrightarrow> wf_object (assign_all src tgt)"
  unfolding assign_all_def
  by (induction src arbitrary: tgt) (auto simp: wf_put)

lemma map_of_assign_all:
  "wf_object src \<Longrightarrow> map_of (assign_all src tgt) = map_of tgt ++ map_of src"
  unfolding assign_all_def wf_object_def
proof (induction src arbitrary: tgt)
  case Nil then show ?case by simp
next
  case (Cons a src)
  obtain k v where a: "a = (k, v)" by (cases a)
  have notin: "k \<notin> dom (map_of src)" and d: "distinct (map fst src)"
    using Cons.prems by (auto simp: a dom_map_of_conv_image_fst)
  have "map_of (fold (\<lambda>(k, v). put k v) (a # src) tgt)
        = map_of (fold (\<lambda>(k, v). put k v) src (put k v tgt))"
    by (simp add: a)
  also have "\<dots> = map_of (put k v tgt) ++ map_of src"
    using Cons.IH[OF d] .
  also have "\<dots> = (map_of tgt)(k \<mapsto> v) ++ map_of src" by (simp only: map_of_put)
  also have "\<dots> = (map_of tgt ++ map_of src)(k \<mapsto> v)"
    using notin by (rule map_add_upd_left)
  also have "\<dots> = map_of tgt ++ map_of (a # src)"
    by (simp add: a)
  finally show ?case .
qed

lemma wf_spread2: "wf_object (spread2 a b)"
  unfolding spread2_def by (intro wf_assign_all) (simp add: wf_object_def)

lemma map_of_spread2:
  "wf_object a \<Longrightarrow> wf_object b \<Longrightarrow> map_of (spread2 a b) = map_of a ++ map_of b"
  unfolding spread2_def by (simp add: map_of_assign_all)

lemma merge_fold:
  "wf_object res \<Longrightarrow> \<forall>e \<in> set es. wf_errors e \<Longrightarrow>
   wf_object (fold merge_step es res) \<and>
   map_of (fold merge_step es res) = fold (\<lambda>e m. m ++ error_map e) es (map_of res)"
proof (induction es arbitrary: res)
  case Nil then show ?case by simp
next
  case (Cons e es)
  have wf1: "wf_object (merge_step e res)"
    using Cons.prems(1) by (auto simp: merge_step_def wf_spread2 split: option.splits)
  have m1: "map_of (merge_step e res) = map_of res ++ error_map e"
    using Cons.prems by (auto simp: merge_step_def error_map_def wf_errors_def map_of_spread2 split: option.splits)
  show ?case using Cons.IH[OF wf1] Cons.prems(2) m1 by simp
qed

lemma mergeErrors_merge_step:
  "mergeErrors es = (let res = fold merge_step es [] in if res = [] then None else Some res)"
  unfolding mergeErrors_def merge_step_def Object_keys_def by (simp add: Let_def)

lemma mergeErrors_union:
  assumes "\<forall>e \<in> set es. wf_errors e"
  shows "error_map (mergeErrors es) = key_union es"
    and "mergeErrors es = None \<longleftrightarrow> key_union es = Map.empty"
    and "wf_errors (mergeErrors es)"
proof -
  have wf0: "wf_object []" by (simp add: wf_object_def)
  from merge_fold[OF wf0 assms]
  have wf: "wf_object (fold merge_step es [])"
    and m: "map_of (fold merge_step es []) = key_union es"
    by (simp_all add: key_union_def)
  show "error_map (mergeErrors es) = key_union es"
    using m by (auto simp: mergeErrors_merge_step error_map_def Let_def)
  show "mergeErrors es = None \<longleftrightarrow> key_union es = Map.empty"
    using m by (cases "fold merge_step es []") (auto simp: mergeErrors_merge_step Let_def)
  show "wf_errors (mergeErrors es)"
    using wf by (auto simp: mergeErrors_merge_step wf_errors_def Let_def)
qed

lemma present_validators_code: "map the (filter isPresent vs) = present_validators vs"
  unfolding present_validators_def isPresent_def
  by (induction vs) (auto split: option.splits)

lemma present_validators_Nil: "present_validators vs = [] \<longleftrightarrow> (\<forall>v \<in> set vs. v = None)"
  unfolding present_validators_def
  by (induction vs) (auto split: option.splits)

text \<open>
  C2. \<open>BindValidators.compose\<close> merges error maps. Given \<open>null\<close>, or a list in which no
  validator is present, it returns \<open>null\<close>. Otherwise it returns a validator function
  which, on every control, returns the key-union of the error maps that the present
  validators produce on that control, a later validator overriding an earlier one on a
  shared key, and returns \<open>null\<close> exactly when that union is empty. A validator is a
  function of the control, and so is the composed validator: applying it yields an error
  map and leaves the control as it is. The error maps that the validators return are
  objects (no key twice).
\<close>

theorem compose_merges_error_maps:
  fixes vs :: "'c BindValidatorFn option list"
  shows "BindValidators_compose (None :: 'c BindValidatorFn option list option) = None \<and>
    ((\<forall>v \<in> set vs. v = None) \<longrightarrow> BindValidators_compose (Some vs) = None) \<and>
    ((\<exists>v \<in> set vs. v \<noteq> None) \<longrightarrow>
       (\<exists>f. BindValidators_compose (Some vs) = Some f \<and>
         (\<forall>control. (\<forall>v \<in> set (present_validators vs). wf_errors (v control)) \<longrightarrow>
            error_map (f control) = key_union (map (\<lambda>v. v control) (present_validators vs)) \<and>
            (f control = None \<longleftrightarrow>
               key_union (map (\<lambda>v. v control) (present_validators vs)) = Map.empty))))"
proof (intro conjI impI)
  show "BindValidators_compose (None :: 'c BindValidatorFn option list option) = None"
    by (simp add: BindValidators_compose_def)
next
  assume "\<forall>v \<in> set vs. v = None"
  then have "present_validators vs = []" by (simp add: present_validators_Nil)
  then show "BindValidators_compose (Some vs) = None"
    by (simp add: BindValidators_compose_def present_validators_code)
next
  assume "\<exists>v \<in> set vs. v \<noteq> None"
  then have ne: "present_validators vs \<noteq> []" by (simp add: present_validators_Nil)
  let ?f = "\<lambda>control. mergeErrors (executeValidators control (present_validators vs))"
  have c: "BindValidators_compose (Some vs) = Some ?f"
    using ne by (simp add: BindValidators_compose_def present_validators_code)
  have "\<forall>control. (\<forall>v \<in> set (present_validators vs). wf_errors (v control)) \<longrightarrow>
            error_map (?f control) = key_union (map (\<lambda>v. v control) (present_validators vs)) \<and>
            (?f control = None \<longleftrightarrow>
               key_union (map (\<lambda>v. v control) (present_validators vs)) = Map.empty)"
  proof (intro allI impI)
    fix control
    assume wf: "\<forall>v \<in> set (present_validators vs). wf_errors (v control)"
    then have "\<forall>e \<in> set (map (\<lambda>v. v control) (present_validators vs)). wf_errors e" by simp
    from mergeErrors_union(1,2)[OF this]
    show "error_map (?f control) = key_union (map (\<lambda>v. v control) (present_validators vs)) \<and>
            (?f control = None \<longleftrightarrow>
               key_union (map (\<lambda>v. v control) (present_validators vs)) = Map.empty)"
      by (simp add: executeValidators_def)
  qed
  with c show "\<exists>f. BindValidators_compose (Some vs) = Some f \<and>
         (\<forall>control. (\<forall>v \<in> set (present_validators vs). wf_errors (v control)) \<longrightarrow>
            error_map (f control) = key_union (map (\<lambda>v. v control) (present_validators vs)) \<and>
            (f control = None \<longleftrightarrow>
               key_union (map (\<lambda>v. v control) (present_validators vs)) = Map.empty))"
    by blast
qed

theorem compose_merges_error_maps_witness:
  "\<exists>f. BindValidators_compose
          (Some [Some BindValidators_required, None, Some BindValidators_requiredTrue])
        = Some f \<and>
       error_map (f \<lparr>value_c = JStr []\<rparr>) = [''required'' \<mapsto> JBool True] \<and>
       f \<lparr>value_c = JStr []\<rparr> \<noteq> None \<and>
       f \<lparr>value_c = JBool True\<rparr> = None \<and>
       BindValidators_compose
         (Some ([None, None] :: AbstractBindControl BindValidatorFn option list)) = None"
proof -
  let ?vs = "[Some BindValidators_required, None, Some BindValidators_requiredTrue]
               :: AbstractBindControl BindValidatorFn option list"
  have p: "present_validators ?vs = [BindValidators_required, BindValidators_requiredTrue]"
    by (simp add: present_validators_def)
  have ex: "\<exists>v \<in> set ?vs. v \<noteq> None" by simp
  from compose_merges_error_maps[of ?vs] ex
  obtain f where f: "BindValidators_compose (Some ?vs) = Some f"
    and g: "\<And>control. (\<forall>v \<in> set (present_validators ?vs). wf_errors (v control)) \<Longrightarrow>
            error_map (f control) = key_union (map (\<lambda>v. v control) (present_validators ?vs)) \<and>
            (f control = None \<longleftrightarrow>
               key_union (map (\<lambda>v. v control) (present_validators ?vs)) = Map.empty)"
    by blast
  have wf: "\<forall>v \<in> set (present_validators ?vs). wf_errors (v control)" for control
    by (simp add: p wf_errors_def wf_object_def BindValidators_required_def
        BindValidators_requiredTrue_def)
  have k1: "key_union (map (\<lambda>v. v \<lparr>value_c = JStr []\<rparr>) (present_validators ?vs))
            = [''required'' \<mapsto> JBool True]"
    by (simp add: p key_union_def error_map_def BindValidators_required_def
        BindValidators_requiredTrue_def isEmptyInputValue_def)
  have k2: "key_union (map (\<lambda>v. v \<lparr>value_c = JBool True\<rparr>) (present_validators ?vs))
            = Map.empty"
    by (simp add: p key_union_def error_map_def BindValidators_required_def
        BindValidators_requiredTrue_def isEmptyInputValue_def)
  have ne: "[''required'' \<mapsto> JBool True] \<noteq> Map.empty"
    by (metis map_upd_nonempty)
  have absent: "BindValidators_compose
         (Some ([None, None] :: AbstractBindControl BindValidatorFn option list)) = None"
    using compose_merges_error_maps
      [of "[None, None] :: AbstractBindControl BindValidatorFn option list"]
    by simp
  from g[OF wf, of "\<lparr>value_c = JStr []\<rparr>"] g[OF wf, of "\<lparr>value_c = JBool True\<rparr>"] f k1 k2 ne
    absent
  show ?thesis by (intro exI[of _ f]) simp
qed

section \<open>The built-in validators\<close>

lemma pattern_check_cases:
  "null_or_nonempty (pattern_check h r s c)"
  by (simp add: pattern_check_def null_or_nonempty_def)

lemma pattern_null_or_nonempty: "null_or_nonempty (BindValidators_pattern h p c)"
  by (cases p) (simp_all add: BindValidators_pattern_def BindValidators_nullValidator_def
      pattern_check_cases null_or_nonempty_def[of None])

lemma pattern_empty:
  "isEmptyInputValue (value_c c) \<Longrightarrow> BindValidators_pattern h p c = None"
  by (cases p) (simp_all add: BindValidators_pattern_def BindValidators_nullValidator_def
      pattern_check_def)

text \<open>
  C7. Each built-in validator of \<open>BindValidators\<close> (min, max, required, requiredTrue,
  email, minLength, maxLength, pattern, nullValidator), applied to any control, returns
  \<open>null\<close> or a non-empty error map. When the value of the control is empty (null,
  undefined, or of length 0), min, max, email, minLength and pattern return \<open>null\<close>.
  This holds for every host, bound, length and pattern argument.
\<close>

theorem builtin_validators_null_or_nonempty:
  "null_or_nonempty (BindValidators_min h mn c) \<and>
   null_or_nonempty (BindValidators_max h mx c) \<and>
   null_or_nonempty (BindValidators_required c) \<and>
   null_or_nonempty (BindValidators_requiredTrue c) \<and>
   null_or_nonempty (BindValidators_email h c) \<and>
   null_or_nonempty (BindValidators_minLength h n c) \<and>
   null_or_nonempty (BindValidators_maxLength h n c) \<and>
   null_or_nonempty (BindValidators_pattern h p c) \<and>
   null_or_nonempty (BindValidators_nullValidator c) \<and>
   (value_c c = JNull \<or> value_c c = JUndefined \<or> js_length (value_c c) = JNum (Fin 0) \<longrightarrow>
      BindValidators_min h mn c = None \<and>
      BindValidators_max h mx c = None \<and>
      BindValidators_email h c = None \<and>
      BindValidators_minLength h n c = None \<and>
      BindValidators_pattern h p c = None)"
proof -
  have e: "isEmptyInputValue (value_c c)"
    if "value_c c = JNull \<or> value_c c = JUndefined \<or> js_length (value_c c) = JNum (Fin 0)"
    using that by (auto simp: isEmptyInputValue_def)
  show ?thesis
    using pattern_null_or_nonempty[of h p c] pattern_empty[of c h p] e
    by (simp add: null_or_nonempty_def BindValidators_min_def BindValidators_max_def
        BindValidators_required_def BindValidators_requiredTrue_def BindValidators_email_def
        BindValidators_minLength_def BindValidators_maxLength_def
        BindValidators_nullValidator_def Let_def)
qed

theorem builtin_validators_null_or_nonempty_witness:
  "BindValidators_min host_example (Some (Fin 3)) \<lparr>value_c = JStr []\<rparr> = None \<and>
   BindValidators_max host_example (Some (Fin 3)) \<lparr>value_c = JStr []\<rparr> = None \<and>
   BindValidators_email host_example \<lparr>value_c = JStr []\<rparr> = None \<and>
   BindValidators_minLength host_example (Fin 3) \<lparr>value_c = JStr []\<rparr> = None \<and>
   BindValidators_pattern host_example (PString ''a'') \<lparr>value_c = JStr []\<rparr> = None \<and>
   null_or_nonempty (BindValidators_required \<lparr>value_c = JStr []\<rparr>) \<and>
   BindValidators_required \<lparr>value_c = JStr []\<rparr> \<noteq> None"
  using builtin_validators_null_or_nonempty
    [of host_example "Some (Fin 3)" "\<lparr>value_c = JStr []\<rparr>" "Some (Fin 3)" "Fin 3" "PString ''a''"]
  by (simp add: BindValidators_required_def isEmptyInputValue_def)

section \<open>The pattern validator\<close>

lemma charAt_first: "charAt s 0 \<noteq> ''^'' \<longleftrightarrow> take 1 s \<noteq> ''^''"
  by (cases s) (simp_all add: charAt_def)

lemma charAt_last:
  "s \<noteq> [] \<Longrightarrow> charAt s (int (length s) - 1) \<noteq> ''$'' \<longleftrightarrow> last s \<noteq> CHR ''$''"
  by (simp add: charAt_def last_conv_nth nat_diff_distrib' of_nat_diff)

lemma pattern_regexStr_anchored: "s \<noteq> [] \<Longrightarrow> pattern_regexStr s = anchored s"
  using charAt_first[of s] charAt_last[of s]
  by (auto simp: pattern_regexStr_def anchored_def Let_def)

text \<open>
  C10. \<open>BindValidators.pattern\<close> normalises its argument. For a falsy pattern (null,
  undefined, the empty string) it returns \<open>nullValidator\<close>, which returns \<open>null\<close> on
  every control. For a non-empty string it tests the value against the regular expression
  built from the anchored string and reports the anchored string as \<open>requiredPattern\<close>.
  For a \<open>RegExp\<close> it tests against that expression, unchanged. An empty value passes.
\<close>

theorem pattern_normalizes_argument:
  fixes c :: "'a AbstractBindControl_scheme"
  shows
  "(p = PNull \<or> p = PString [] \<longrightarrow>
      BindValidators_pattern h p
        = (BindValidators_nullValidator :: 'a AbstractBindControl_scheme BindValidatorFn)) \<and>
   BindValidators_nullValidator c = None \<and>
   (s \<noteq> [] \<longrightarrow>
      BindValidators_pattern h (PString s) c =
        (if isEmptyInputValue (value_c c) then None
         else if regexp_test h (RegExp (anchored s) []) (value_c c) then None
         else Some [(''pattern'', JObj [(''requiredPattern'', JStr (anchored s)),
                                        (''actualValue'', value_c c)])])) \<and>
   BindValidators_pattern h (PRegExp r) c =
     (if isEmptyInputValue (value_c c) then None
      else if regexp_test h r (value_c c) then None
      else Some [(''pattern'', JObj [(''requiredPattern'', JStr (RegExp_toString r)),
                                     (''actualValue'', value_c c)])])"
  using pattern_regexStr_anchored[of s]
  by (auto simp: BindValidators_pattern_def BindValidators_nullValidator_def pattern_check_def)

theorem pattern_normalizes_argument_witness:
  "BindValidators_pattern host_example (PString []) \<lparr>value_c = JStr ''1''\<rparr> = None \<and>
   BindValidators_pattern host_example (PString ''[a-zA-Z ]*'') \<lparr>value_c = JStr ''1''\<rparr> =
     Some [(''pattern'', JObj [(''requiredPattern'', JStr ''^[a-zA-Z ]*$''),
                               (''actualValue'', JStr ''1'')])] \<and>
   anchored ''^a$'' = ''^a$'' \<and> anchored ''$'' = ''^$''"
proof -
  have t: "regexp_test host_example r v = False" for r v
    by (simp add: host_example_def)
  have e: "\<not> isEmptyInputValue (JStr ''1'')"
    by (simp add: isEmptyInputValue_def)
  have a: "anchored ''[a-zA-Z ]*'' = ''^[a-zA-Z ]*$''" "anchored ''^a$'' = ''^a$''"
    "anchored ''$'' = ''^$''"
    by (simp_all add: anchored_def)
  from pattern_normalizes_argument
    [where p = "PString []" and h = host_example and c = "\<lparr>value_c = JStr ''1''\<rparr>"
       and s = "''[a-zA-Z ]*''" and r = "RegExp ''a'' []"]
  show ?thesis using t e a by simp
qed

section \<open>Selecting the value accessor\<close>

lemma isBuiltInAccessor_iff: "isBuiltInAccessor v = is_builtin v"
  by (auto simp: isBuiltInAccessor_def is_builtin_def BUILTIN_ACCESSORS_def)

lemma classes_exclusive:
  "is_default v \<Longrightarrow> \<not> is_builtin v \<and> \<not> is_custom v"
  "is_builtin v \<Longrightarrow> \<not> is_default v \<and> \<not> is_custom v"
  "\<not> is_default v \<Longrightarrow> \<not> is_builtin v \<Longrightarrow> is_custom v"
  by (cases "constructor_c v"; auto simp: is_default_def is_builtin_def is_custom_def)+

lemma loop_Cons:
  "selectValueAccessor_loop dp (v # vs) sel =
     (if is_default v
      then selectValueAccessor_loop dp vs (sel\<lparr>defaultAccessor := Some v\<rparr>)
      else if is_builtin v
      then (if builtinAccessor sel \<noteq> None
            then Inl (throwError dp
                   ''More than one built-in value accessor matches form control with'')
            else selectValueAccessor_loop dp vs (sel\<lparr>builtinAccessor := Some v\<rparr>))
      else (if customAccessor sel \<noteq> None
            then Inl (throwError dp
                   ''More than one custom value accessor matches form control with'')
            else selectValueAccessor_loop dp vs (sel\<lparr>customAccessor := Some v\<rparr>)))"
  by (simp add: is_default_def isBuiltInAccessor_iff)

lemma loop_throws:
  "occupied (builtinAccessor sel) + length (filter is_builtin vs) > 1 \<or>
   occupied (customAccessor sel) + length (filter is_custom vs) > 1 \<Longrightarrow>
   \<exists>e \<in> selection_errors dp. selectValueAccessor_loop dp vs sel = Inl e"
proof (induction vs arbitrary: sel)
  case Nil
  then show ?case by (auto simp: occupied_def split: if_splits)
next
  case (Cons v vs)
  consider (d) "is_default v" | (b) "is_builtin v" | (c) "\<not> is_default v" "\<not> is_builtin v"
    by blast
  then show ?case
  proof cases
    case d
    then have nb: "\<not> is_builtin v" and nc: "\<not> is_custom v" using classes_exclusive(1) by auto
    have "\<exists>e \<in> selection_errors dp.
            selectValueAccessor_loop dp vs (sel\<lparr>defaultAccessor := Some v\<rparr>) = Inl e"
      using Cons.prems nb nc by (intro Cons.IH) simp
    then show ?thesis using d by (simp add: loop_Cons del: selectValueAccessor_loop.simps)
  next
    case b
    then have nd: "\<not> is_default v" and nc: "\<not> is_custom v" using classes_exclusive(2) by auto
    show ?thesis
    proof (cases "builtinAccessor sel = None")
      case True
      have "\<exists>e \<in> selection_errors dp.
              selectValueAccessor_loop dp vs (sel\<lparr>builtinAccessor := Some v\<rparr>) = Inl e"
        using Cons.prems b nc True by (intro Cons.IH) (simp add: occupied_def)
      then show ?thesis using b nd True by (simp add: loop_Cons del: selectValueAccessor_loop.simps)
    next
      case False
      then show ?thesis using b nd
        by (simp add: loop_Cons selection_errors_def del: selectValueAccessor_loop.simps)
    qed
  next
    case c
    then have cu: "is_custom v" using classes_exclusive(3) by auto
    show ?thesis
    proof (cases "customAccessor sel = None")
      case True
      have "\<exists>e \<in> selection_errors dp.
              selectValueAccessor_loop dp vs (sel\<lparr>customAccessor := Some v\<rparr>) = Inl e"
        using Cons.prems c cu True by (intro Cons.IH) (simp add: occupied_def)
      then show ?thesis using c True by (simp add: loop_Cons del: selectValueAccessor_loop.simps)
    next
      case False
      then show ?thesis using c
        by (simp add: loop_Cons selection_errors_def del: selectValueAccessor_loop.simps)
    qed
  qed
qed

lemma loop_returns:
  "occupied (builtinAccessor sel) + length (filter is_builtin vs) \<le> 1 \<Longrightarrow>
   occupied (customAccessor sel) + length (filter is_custom vs) \<le> 1 \<Longrightarrow>
   selectValueAccessor_loop dp vs sel =
     Inr \<lparr>defaultAccessor = latest (filter is_default vs) (defaultAccessor sel),
          builtinAccessor = latest (filter is_builtin vs) (builtinAccessor sel),
          customAccessor = latest (filter is_custom vs) (customAccessor sel)\<rparr>"
proof (induction vs arbitrary: sel)
  case Nil
  then show ?case by (simp add: latest_def)
next
  case (Cons v vs)
  consider (d) "is_default v" | (b) "is_builtin v" | (c) "\<not> is_default v" "\<not> is_builtin v"
    by blast
  then show ?case
  proof cases
    case d
    then have nb: "\<not> is_builtin v" and nc: "\<not> is_custom v" using classes_exclusive(1) by auto
    have "selectValueAccessor_loop dp vs (sel\<lparr>defaultAccessor := Some v\<rparr>) =
      Inr \<lparr>defaultAccessor = latest (filter is_default vs) (Some v),
          builtinAccessor = latest (filter is_builtin vs) (builtinAccessor sel),
          customAccessor = latest (filter is_custom vs) (customAccessor sel)\<rparr>"
      using Cons.IH[of "sel\<lparr>defaultAccessor := Some v\<rparr>"] Cons.prems nb nc by simp
    then show ?thesis using d nb nc by (simp add: loop_Cons latest_def del: selectValueAccessor_loop.simps)
  next
    case b
    then have nd: "\<not> is_default v" and nc: "\<not> is_custom v" using classes_exclusive(2) by auto
    have free: "builtinAccessor sel = None" and none: "filter is_builtin vs = []"
      using Cons.prems(1) b by (auto simp: occupied_def split: if_splits)
    have "selectValueAccessor_loop dp vs (sel\<lparr>builtinAccessor := Some v\<rparr>) =
      Inr \<lparr>defaultAccessor = latest (filter is_default vs) (defaultAccessor sel),
          builtinAccessor = latest (filter is_builtin vs) (Some v),
          customAccessor = latest (filter is_custom vs) (customAccessor sel)\<rparr>"
      using Cons.IH[of "sel\<lparr>builtinAccessor := Some v\<rparr>"] Cons.prems nc none
      by (simp add: occupied_def)
    then show ?thesis using b nd nc free none
      by (simp add: loop_Cons latest_def del: selectValueAccessor_loop.simps)
  next
    case c
    then have cu: "is_custom v" using classes_exclusive(3) by auto
    have free: "customAccessor sel = None" and none: "filter is_custom vs = []"
      using Cons.prems(2) cu by (auto simp: occupied_def split: if_splits)
    have "selectValueAccessor_loop dp vs (sel\<lparr>customAccessor := Some v\<rparr>) =
      Inr \<lparr>defaultAccessor = latest (filter is_default vs) (defaultAccessor sel),
          builtinAccessor = latest (filter is_builtin vs) (builtinAccessor sel),
          customAccessor = latest (filter is_custom vs) (Some v)\<rparr>"
      using Cons.IH[of "sel\<lparr>customAccessor := Some v\<rparr>"] Cons.prems c none
      by (simp add: occupied_def)
    then show ?thesis using c cu free none
      by (simp add: loop_Cons latest_def del: selectValueAccessor_loop.simps)
  qed
qed

text \<open>
  C9. \<open>selectValueAccessor\<close> chooses with the priority custom, built-in, default. For a
  null or undefined accessor list it returns \<open>null\<close>. When more than one built-in or
  more than one custom accessor is in the list it throws. Otherwise it returns the
  custom accessor when there is one, else the built-in accessor when there is one, else
  the default accessor (the last one in the list), and it throws when the list holds no
  accessor at all.
\<close>

theorem selectValueAccessor_priority:
  fixes vs :: "'a ControlBindValueAccessor_scheme list"
  shows
  "selectValueAccessor dp (NoAccessors :: 'a ControlBindValueAccessor_scheme accessors_arg)
     = Inr None \<and>
   (length (filter is_builtin vs) > 1 \<or> length (filter is_custom vs) > 1 \<longrightarrow>
      (\<exists>e \<in> selection_errors dp. selectValueAccessor dp (Accessors vs) = Inl e)) \<and>
   (length (filter is_builtin vs) \<le> 1 \<and> length (filter is_custom vs) \<le> 1 \<longrightarrow>
      (\<forall>c. filter is_custom vs = [c] \<longrightarrow>
         selectValueAccessor dp (Accessors vs) = Inr (Some c)) \<and>
      (\<forall>b. filter is_custom vs = [] \<and> filter is_builtin vs = [b] \<longrightarrow>
         selectValueAccessor dp (Accessors vs) = Inr (Some b)) \<and>
      (filter is_custom vs = [] \<and> filter is_builtin vs = [] \<and> filter is_default vs \<noteq> [] \<longrightarrow>
         selectValueAccessor dp (Accessors vs) = Inr (Some (last (filter is_default vs)))) \<and>
      (filter is_custom vs = [] \<and> filter is_builtin vs = [] \<and> filter is_default vs = [] \<longrightarrow>
         selectValueAccessor dp (Accessors vs) =
           Inl (throwError dp ''No valid value accessor for form control with'')))"
proof -
  let ?init = "\<lparr>defaultAccessor = None, builtinAccessor = None, customAccessor = None\<rparr>
                 :: 'a ControlBindValueAccessor_scheme selection"
  have none: "selectValueAccessor dp (NoAccessors :: 'a ControlBindValueAccessor_scheme accessors_arg)
     = Inr None"
    by (simp add: selectValueAccessor_def)
  have many: "\<exists>e \<in> selection_errors dp. selectValueAccessor dp (Accessors vs) = Inl e"
    if "length (filter is_builtin vs) > 1 \<or> length (filter is_custom vs) > 1"
  proof -
    have "\<exists>e \<in> selection_errors dp. selectValueAccessor_loop dp vs ?init = Inl e"
      using that by (intro loop_throws) (simp add: occupied_def)
    then show ?thesis by (auto simp: selectValueAccessor_def)
  qed
  have few: "selectValueAccessor dp (Accessors vs) =
      (if filter is_custom vs \<noteq> [] then Inr (Some (last (filter is_custom vs)))
       else if filter is_builtin vs \<noteq> [] then Inr (Some (last (filter is_builtin vs)))
       else if filter is_default vs \<noteq> [] then Inr (Some (last (filter is_default vs)))
       else Inl (throwError dp ''No valid value accessor for form control with''))"
    if "length (filter is_builtin vs) \<le> 1 \<and> length (filter is_custom vs) \<le> 1"
  proof -
    have "selectValueAccessor_loop dp vs ?init =
       Inr \<lparr>defaultAccessor = latest (filter is_default vs) None,
            builtinAccessor = latest (filter is_builtin vs) None,
            customAccessor = latest (filter is_custom vs) None\<rparr>"
      using loop_returns[of ?init vs dp] that by (simp add: occupied_def)
    then show ?thesis by (simp add: selectValueAccessor_def latest_def)
  qed
  show ?thesis
  proof (intro conjI impI allI)
    show "selectValueAccessor dp (NoAccessors :: 'a ControlBindValueAccessor_scheme accessors_arg)
     = Inr None" by (rule none)
  next
    assume "length (filter is_builtin vs) > 1 \<or> length (filter is_custom vs) > 1"
    then show "\<exists>e \<in> selection_errors dp. selectValueAccessor dp (Accessors vs) = Inl e"
      by (rule many)
  next
    fix c
    assume "length (filter is_builtin vs) \<le> 1 \<and> length (filter is_custom vs) \<le> 1"
      and "filter is_custom vs = [c]"
    then show "selectValueAccessor dp (Accessors vs) = Inr (Some c)"
      using few by simp
  next
    fix b
    assume "length (filter is_builtin vs) \<le> 1 \<and> length (filter is_custom vs) \<le> 1"
      and "filter is_custom vs = [] \<and> filter is_builtin vs = [b]"
    then show "selectValueAccessor dp (Accessors vs) = Inr (Some b)"
      using few by simp
  next
    assume "length (filter is_builtin vs) \<le> 1 \<and> length (filter is_custom vs) \<le> 1"
      and "filter is_custom vs = [] \<and> filter is_builtin vs = [] \<and> filter is_default vs \<noteq> []"
    then show "selectValueAccessor dp (Accessors vs) = Inr (Some (last (filter is_default vs)))"
      using few by simp
  next
    assume "length (filter is_builtin vs) \<le> 1 \<and> length (filter is_custom vs) \<le> 1"
      and "filter is_custom vs = [] \<and> filter is_builtin vs = [] \<and> filter is_default vs = []"
    then show "selectValueAccessor dp (Accessors vs) =
           Inl (throwError dp ''No valid value accessor for form control with'')"
      using few by simp
  qed
qed

theorem selectValueAccessor_priority_witness:
  "selectValueAccessor [''name'']
     (Accessors [acc DefaultBindValueAccessor, acc (CustomAccessor ''Mine''),
                 acc NumberBindValueAccessor])
     = Inr (Some (acc (CustomAccessor ''Mine''))) \<and>
   selectValueAccessor [''name'']
     (Accessors [acc DefaultBindValueAccessor, acc NumberBindValueAccessor])
     = Inr (Some (acc NumberBindValueAccessor)) \<and>
   selectValueAccessor [''name''] (Accessors [acc DefaultBindValueAccessor])
     = Inr (Some (acc DefaultBindValueAccessor)) \<and>
   selectValueAccessor [''name''] (Accessors ([] :: ControlBindValueAccessor list))
     = Inl (Error (''No valid value accessor for form control with name: '' @ [CHR 0x27]
                   @ ''name'' @ [CHR 0x27])) \<and>
   (\<exists>e. selectValueAccessor [''name'']
          (Accessors [acc NumberBindValueAccessor, acc RangeBindValueAccessor]) = Inl e)"
proof -
  have k: "is_custom (acc (CustomAccessor ''Mine''))" "\<not> is_custom (acc DefaultBindValueAccessor)"
    "\<not> is_custom (acc NumberBindValueAccessor)" "\<not> is_custom (acc RangeBindValueAccessor)"
    "is_builtin (acc NumberBindValueAccessor)" "is_builtin (acc RangeBindValueAccessor)"
    "\<not> is_builtin (acc DefaultBindValueAccessor)" "\<not> is_builtin (acc (CustomAccessor ''Mine''))"
    "is_default (acc DefaultBindValueAccessor)" "\<not> is_default (acc NumberBindValueAccessor)"
    "\<not> is_default (acc (CustomAccessor ''Mine''))"
    by (simp_all add: is_custom_def is_builtin_def is_default_def acc_def)
  have m: "throwError [''name''] ''No valid value accessor for form control with''
           = Error (''No valid value accessor for form control with name: '' @ [CHR 0x27] @ ''name'' @ [CHR 0x27])"
    by (simp add: throwError_def)
  show ?thesis
    using selectValueAccessor_priority[of "[''name'']"
        "[acc DefaultBindValueAccessor, acc (CustomAccessor ''Mine''), acc NumberBindValueAccessor]"]
      selectValueAccessor_priority[of "[''name'']"
        "[acc DefaultBindValueAccessor, acc NumberBindValueAccessor]"]
      selectValueAccessor_priority[of "[''name'']" "[acc DefaultBindValueAccessor]"]
      selectValueAccessor_priority[of "[''name'']" "[] :: ControlBindValueAccessor list"]
      selectValueAccessor_priority[of "[''name'']"
        "[acc NumberBindValueAccessor, acc RangeBindValueAccessor]"]
    by (simp add: k m) blast
qed

section \<open>The pipelines between view and model\<close>

lemma setValue_calls_append [simp]:
  "setValue_calls (xs @ ys) = setValue_calls xs @ setValue_calls ys"
  by (induction xs rule: setValue_calls.induct) simp_all

lemma trace_updateControl:
  "trace (updateControl b) =
     trace b @ (if pendingDirty (control b) then [Control_markAsDirty] else [])
       @ [Control_setValue (case transformer (control b) of
                              None \<Rightarrow> pendingValue (control b)
                            | Some t \<Rightarrow> t [JBool (pendingChange (control b))]) False,
          Dir_viewToModelUpdate (case transformer (control b) of
                              None \<Rightarrow> pendingValue (control b)
                            | Some t \<Rightarrow> t [JBool (pendingChange (control b))])]"
  by (simp add: updateControl_def Let_def markAsDirty_def setValue_def call_def
      split: option.splits)

lemma control_updateControl:
  "control (updateControl b) =
     (control b)\<lparr>dirty := (pendingDirty (control b) \<or> dirty (control b)),
                 pendingValue := (case transformer (control b) of
                              None \<Rightarrow> pendingValue (control b)
                            | Some t \<Rightarrow> t [JBool (pendingChange (control b))]),
                 value_c := (case transformer (control b) of
                              None \<Rightarrow> pendingValue (control b)
                            | Some t \<Rightarrow> t [JBool (pendingChange (control b))]),
                 pendingChange := False\<rparr>"
  by (simp add: updateControl_def Let_def markAsDirty_def setValue_def call_def
      split: option.splits)

lemma onChange_buffered:
  "setUpViewChangePipeline_onChange newValue b =
     (if updateOn (control b) = change then updateControl (buffered newValue b)
      else buffered newValue b)"
  by (cases "transformer (control b)")
     (simp_all add: setUpViewChangePipeline_onChange_def buffered_def view_value_def Let_def
        call_def)

lemma emitted_onChange:
  "emitted (setUpViewChangePipeline_onChange newValue) b =
     (if transformer (control b) \<noteq> None
           \<and> strict_neq (view_value (transformer (control b)) newValue) newValue
      then [Accessor_writeValue (view_value (transformer (control b)) newValue)] else [])
     @ (if updateOn (control b) = change
        then [Control_markAsDirty,
              Control_setValue (case transformer (control b) of
                                  None \<Rightarrow> newValue | Some t \<Rightarrow> t [JBool True]) False,
              Dir_viewToModelUpdate (case transformer (control b) of
                                  None \<Rightarrow> newValue | Some t \<Rightarrow> t [JBool True])]
        else [])"
  by (cases "transformer (control b)")
     (simp_all add: emitted_def onChange_buffered trace_updateControl buffered_def Let_def
      view_value_def)

lemma emitted_onTouched:
  "emitted setUpBlurPipeline_onTouched b =
     (if updateOn (control b) = blur \<and> pendingChange (control b)
      then (if pendingDirty (control b) then [Control_markAsDirty] else [])
           @ [Control_setValue (case transformer (control b) of
                              None \<Rightarrow> pendingValue (control b)
                            | Some t \<Rightarrow> t [JBool True]) False,
              Dir_viewToModelUpdate (case transformer (control b) of
                              None \<Rightarrow> pendingValue (control b)
                            | Some t \<Rightarrow> t [JBool True])]
      else [])
     @ (if updateOn (control b) \<noteq> submit then [Control_markAsTouched] else [])"
  by (simp add: emitted_def setUpBlurPipeline_onTouched_def Let_def trace_updateControl
      control_updateControl markAsTouched_def call_def split: option.splits)

lemma trace_sync_one:
  "trace (syncPendingControls_dir (control_syncPendingControls b)) =
     trace b @ (if updateOn (control b) = submit \<and> pendingChange (control b)
                then [Control_setValue (pendingValue (control b)) False,
                      Dir_viewToModelUpdate (pendingValue (control b))]
                else [])"
  by (simp add: syncPendingControls_dir_def control_syncPendingControls_def setValue_def
      call_def Let_def)

lemma syncPendingControls_nth:
  "i < length bs \<Longrightarrow>
   syncPendingControls bs ! i = syncPendingControls_dir (control_syncPendingControls (bs ! i))"
  by (simp add: syncPendingControls_def form_syncPendingControls_def)

lemma example_fields:
  "updateOn (control (binding_example st t)) = st"
  "transformer (control (binding_example st t)) = t"
  "value_c (control (binding_example st t)) = JStr []"
  "pendingChange (control (binding_example st t)) = False"
  "pendingDirty (control (binding_example st t)) = False"
  "dirty (control (binding_example st t)) = False"
  "touched (control (binding_example st t)) = False"
  "trace (binding_example st t) = []"
  by (simp_all add: binding_example_def control_example_def)


text \<open>
  When \<open>control.setValue\<close> is called. The change callback first buffers the view value
  (after the transformer, when there is one) in the pending fields. \<open>setValue\<close> is then
  called in the change callback exactly when the strategy is \<open>change\<close>, in the blur
  callback exactly when the strategy is \<open>blur\<close> and a change is pending, and in
  \<open>syncPendingControls\<close> exactly when the strategy is \<open>submit\<close> and a change is
  pending, there with the pending value. With another strategy than \<open>change\<close> the
  change callback leaves the value of the model as it is.
\<close>

lemma setValue_called_on_strategy_event:
  fixes b :: "'r binding" and bs :: "'r binding list"
  shows
  "(\<exists>b'. pendingValue (control b') = view_value (transformer (control b)) newValue \<and>
         pendingChange (control b') \<and> pendingDirty (control b') \<and>
         value_c (control b') = value_c (control b) \<and>
         setValue_calls (trace b') = setValue_calls (trace b) \<and>
         setUpViewChangePipeline_onChange newValue b =
           (if updateOn (control b) = change then updateControl b' else b')) \<and>
   (setValue_calls (emitted (setUpViewChangePipeline_onChange newValue) b) \<noteq> []
      \<longleftrightarrow> updateOn (control b) = change) \<and>
   (setValue_calls (emitted setUpBlurPipeline_onTouched b) \<noteq> []
      \<longleftrightarrow> updateOn (control b) = blur \<and> pendingChange (control b)) \<and>
   (\<forall>i < length bs.
      setValue_calls (drop (length (trace (bs ! i))) (trace (syncPendingControls bs ! i)))
        = (if updateOn (control (bs ! i)) = submit \<and> pendingChange (control (bs ! i))
           then [pendingValue (control (bs ! i))] else [])) \<and>
   (updateOn (control b) \<noteq> change \<longrightarrow>
      value_c (control (setUpViewChangePipeline_onChange newValue b)) = value_c (control b))"
proof -
  have buf: "\<exists>b'. pendingValue (control b') = view_value (transformer (control b)) newValue \<and>
         pendingChange (control b') \<and> pendingDirty (control b') \<and>
         value_c (control b') = value_c (control b) \<and>
         setValue_calls (trace b') = setValue_calls (trace b) \<and>
         setUpViewChangePipeline_onChange newValue b =
           (if updateOn (control b) = change then updateControl b' else b')"
    by (rule exI[of _ "buffered newValue b"])
       (simp add: onChange_buffered, simp add: buffered_def Let_def)
  have chg: "setValue_calls (emitted (setUpViewChangePipeline_onChange newValue) b) \<noteq> []
      \<longleftrightarrow> updateOn (control b) = change"
    by (simp add: emitted_onChange)
  have blr: "setValue_calls (emitted setUpBlurPipeline_onTouched b) \<noteq> []
      \<longleftrightarrow> updateOn (control b) = blur \<and> pendingChange (control b)"
    by (simp add: emitted_onTouched)
  have sub: "\<forall>i < length bs.
      setValue_calls (drop (length (trace (bs ! i))) (trace (syncPendingControls bs ! i)))
        = (if updateOn (control (bs ! i)) = submit \<and> pendingChange (control (bs ! i))
           then [pendingValue (control (bs ! i))] else [])"
    by (simp add: syncPendingControls_nth trace_sync_one)
  have keep: "updateOn (control b) \<noteq> change \<longrightarrow>
      value_c (control (setUpViewChangePipeline_onChange newValue b)) = value_c (control b)"
    by (simp add: onChange_buffered buffered_def Let_def)
  from buf chg blr sub keep show ?thesis by blast
qed

text \<open>
  C1, at a control whose strategy is \<open>blur\<close> and whose transformer is the identity
  function. The view reports \<open>'a'\<close>: the change callback buffers \<open>'a'\<close> as the pending
  value, sets \<open>_pendingChange\<close> and \<open>_pendingDirty\<close>, and does not call
  \<open>setValue\<close>. At the blur event \<open>setValue\<close> is called, but \<open>updateControl\<close> has
  replaced the pending value by the transformer applied to the flag \<open>_pendingChange\<close>:
  the model receives \<open>true\<close>, and it receives \<open>true\<close> as well when the view reports
  \<open>'b'\<close>. The view change is not what is propagated into the model.
\<close>

theorem blur_update_sets_transformed_flag:
  "pendingValue (control (setUpViewChangePipeline_onChange (JStr ''a'')
                   (binding_example blur (Some (unary (\<lambda>v. v)))))) = JStr ''a'' \<and>
   pendingChange (control (setUpViewChangePipeline_onChange (JStr ''a'')
                   (binding_example blur (Some (unary (\<lambda>v. v)))))) \<and>
   pendingDirty (control (setUpViewChangePipeline_onChange (JStr ''a'')
                   (binding_example blur (Some (unary (\<lambda>v. v)))))) \<and>
   setValue_calls (trace (setUpViewChangePipeline_onChange (JStr ''a'')
                   (binding_example blur (Some (unary (\<lambda>v. v)))))) = [] \<and>
   setValue_calls (trace (setUpBlurPipeline_onTouched
                   (setUpViewChangePipeline_onChange (JStr ''a'')
                      (binding_example blur (Some (unary (\<lambda>v. v))))))) = [JBool True] \<and>
   value_c (control (setUpBlurPipeline_onTouched
                   (setUpViewChangePipeline_onChange (JStr ''a'')
                      (binding_example blur (Some (unary (\<lambda>v. v))))))) = JBool True \<and>
   setValue_calls (trace (setUpBlurPipeline_onTouched
                   (setUpViewChangePipeline_onChange (JStr ''b'')
                      (binding_example blur (Some (unary (\<lambda>v. v))))))) = [JBool True]"
  by (simp add: onChange_buffered buffered_def view_value_def example_fields unary_def
      setUpBlurPipeline_onTouched_def Let_def trace_updateControl control_updateControl
      markAsTouched_def call_def)



text \<open>
  C3, at a control whose strategy is \<open>change\<close> and whose transformer is the identity
  function, for the view value \<open>'a'\<close>: the pending value is \<open>'a'\<close> when it is
  buffered, but \<open>updateControl\<close> applies the transformer to the flag
  \<open>_pendingChange\<close>, so \<open>setValue\<close> receives \<open>true\<close> and the model holds \<open>true\<close>.
\<close>

theorem updateControl_transforms_pending_flag:
  "pendingValue (control (buffered (JStr ''a'') (binding_example change (Some (unary (\<lambda>v. v))))))
     = JStr ''a'' \<and>
   setValue_calls (trace (setUpViewChangePipeline_onChange (JStr ''a'')
                            (binding_example change (Some (unary (\<lambda>v. v))))))
     = [JBool True] \<and>
   value_c (control (setUpViewChangePipeline_onChange (JStr ''a'')
                            (binding_example change (Some (unary (\<lambda>v. v))))))
     = JBool True"
  by (simp add: onChange_buffered buffered_def view_value_def example_fields unary_def
      trace_updateControl control_updateControl)

text \<open>
  C4, at a control whose transformer is the identity function, for the model value
  \<open>'a'\<close>: the model-change callback calls the transformer without an argument, so the
  view is written \<open>undefined\<close>.
\<close>

theorem model_change_transformer_gets_no_argument:
  "trace (setUpModelChangePipeline_onChange (JStr ''a'') False
            (binding_example change (Some (unary (\<lambda>v. v)))))
     = [Accessor_writeValue JUndefined]"
  by (simp add: setUpModelChangePipeline_onChange_def example_fields unary_def call_def)

section \<open>Asynchronous validators\<close>

lemma map_throwing_Inr: "map_throwing f xs = Inr ys \<longleftrightarrow> map f xs = map Inr ys"
proof (induction xs arbitrary: ys)
  case Nil
  then show ?case by auto
next
  case (Cons a xs)
  show ?case
  proof (cases "f a")
    case (Inl e)
    then show ?thesis by (cases ys) auto
  next
    case (Inr y)
    show ?thesis
    proof (cases "map_throwing f xs")
      case (Inl e)
      then have "\<And>zs. map f xs \<noteq> map Inr zs" using Cons.IH by auto
      then show ?thesis using Inr Inl by (cases ys) auto
    next
      case r: (Inr zs)
      then have "map f xs = map Inr zs" using Cons.IH by simp
      then show ?thesis using Inr r by (cases ys) (auto simp: inj_map_eq_map[OF inj_Inr])
    qed
  qed
qed

lemma toObservable_as_observable:
  "isObservable x (as_observable x r) \<Longrightarrow> toObservable x r = Inr (as_observable x r)"
  by (simp add: toObservable_def as_observable_def Let_def)

text \<open>
  C5. \<open>BindValidators.composeAsync\<close> returns \<open>null\<close> for \<open>null\<close> and for a list in
  which no validator is present. Otherwise it returns a function which, on a control,
  runs every present validator, converts each result to an observable (a promise through
  \<open>from\<close>), joins the observables with \<open>forkJoin\<close> and maps the joined emission with
  \<open>_mergeErrors\<close>. \<open>_mergeErrors\<close> yields the key-union of the error maps, and
  \<open>null\<close> exactly when the union is empty. Here the validators return a promise or an
  observable, as their type says; the operators of the reactive library are arbitrary.
\<close>

theorem composeAsync_joins_observables:
  fixes vs :: "('c, 'r) AsyncBindValidatorFn option list"
  shows
  "BindValidators_composeAsync x (None :: ('c, 'r) AsyncBindValidatorFn option list option) = None \<and>
   ((\<forall>v \<in> set vs. v = None) \<longrightarrow> BindValidators_composeAsync x (Some vs) = None) \<and>
   ((\<exists>v \<in> set vs. v \<noteq> None) \<longrightarrow>
      (\<exists>f. BindValidators_composeAsync x (Some vs) = Some f \<and>
        (\<forall>control results.
           map (\<lambda>v. v control) (present_validators vs) = map Inr results \<and>
           (\<forall>r \<in> set results. isObservable x (as_observable x r)) \<longrightarrow>
           f control = Inr (rx_map x mergeErrors (forkJoin x (map (as_observable x) results)))))) \<and>
   (\<forall>es. (\<forall>e \<in> set es. wf_errors e) \<longrightarrow>
      error_map (mergeErrors es) = key_union es \<and>
      (mergeErrors es = None \<longleftrightarrow> key_union es = Map.empty))"
proof -
  have n: "BindValidators_composeAsync x (None :: ('c, 'r) AsyncBindValidatorFn option list option) = None"
    by (simp add: BindValidators_composeAsync_def)
  have a: "BindValidators_composeAsync x (Some vs) = None" if "\<forall>v \<in> set vs. v = None"
  proof -
    from that have "present_validators vs = []" by (simp add: present_validators_Nil)
    then show ?thesis by (simp add: BindValidators_composeAsync_def present_validators_code)
  qed
  have p: "\<exists>f. BindValidators_composeAsync x (Some vs) = Some f \<and>
        (\<forall>control results.
           map (\<lambda>v. v control) (present_validators vs) = map Inr results \<and>
           (\<forall>r \<in> set results. isObservable x (as_observable x r)) \<longrightarrow>
           f control = Inr (rx_map x mergeErrors (forkJoin x (map (as_observable x) results))))"
    if "\<exists>v \<in> set vs. v \<noteq> None"
  proof -
    from that have ne: "present_validators vs \<noteq> []" by (simp add: present_validators_Nil)
    let ?f = "\<lambda>control.
            case executeAsyncValidators control (present_validators vs) of
              Inl e \<Rightarrow> Inl e
            | Inr results \<Rightarrow>
                (case map_throwing (toObservable x) results of
                   Inl e \<Rightarrow> Inl e
                 | Inr observables \<Rightarrow> Inr (rx_map x mergeErrors (forkJoin x observables)))"
    have c: "BindValidators_composeAsync x (Some vs) = Some ?f"
      using ne by (simp add: BindValidators_composeAsync_def present_validators_code)
    have "?f control = Inr (rx_map x mergeErrors (forkJoin x (map (as_observable x) results)))"
      if r: "map (\<lambda>v. v control) (present_validators vs) = map Inr results"
        and o: "\<forall>r \<in> set results. isObservable x (as_observable x r)"
      for control results
    proof -
      have 1: "executeAsyncValidators control (present_validators vs) = Inr results"
        using r by (simp add: executeAsyncValidators_def map_throwing_Inr)
      have "map (toObservable x) results = map Inr (map (as_observable x) results)"
        using o by (simp add: toObservable_as_observable)
      then have 2: "map_throwing (toObservable x) results = Inr (map (as_observable x) results)"
        by (simp only: map_throwing_Inr)
      show ?thesis by (simp add: 1 2)
    qed
    with c show ?thesis by blast
  qed
  have m: "\<forall>es. (\<forall>e \<in> set es. wf_errors e) \<longrightarrow>
      error_map (mergeErrors es) = key_union es \<and>
      (mergeErrors es = None \<longleftrightarrow> key_union es = Map.empty)"
    using mergeErrors_union(1,2) by blast
  from n a p m show ?thesis by blast
qed

theorem composeAsync_joins_observables_witness:
  "(\<exists>f. BindValidators_composeAsync rx_example
          (Some [Some (async_example (Some [(''taken'', JBool True)])), None,
                 Some (async_example None)]) = Some f \<and>
       f \<lparr>value_c = JStr ''a''\<rparr> = Inr [[Some [(''taken'', JBool True)]]]) \<and>
   BindValidators_composeAsync rx_example
     (Some ([None] :: (AbstractBindControl, stream_example) AsyncBindValidatorFn option list))
     = None \<and>
   error_map (mergeErrors [Some [(''taken'', JBool True)], None]) = [''taken'' \<mapsto> JBool True]"
proof -
  let ?vs = "[Some (async_example (Some [(''taken'', JBool True)])), None,
              Some (async_example None)]"
  let ?c = "\<lparr>value_c = JStr ''a''\<rparr>"
  let ?results = "[[[Some [(''taken'', JBool True)]]], [[None]]] :: stream_example list"
  have ex: "\<exists>v \<in> set ?vs. v \<noteq> None" by simp
  have r: "map (\<lambda>v. v ?c) (present_validators ?vs) = map Inr ?results"
    by (simp add: present_validators_def async_example_def)
  have o: "\<forall>r \<in> set ?results. isObservable rx_example (as_observable rx_example r)"
    by (simp add: rx_example_def)
  from composeAsync_joins_observables[of rx_example ?vs] ex
  obtain f where f: "BindValidators_composeAsync rx_example (Some ?vs) = Some f"
    and g: "\<And>control results.
           map (\<lambda>v. v control) (present_validators ?vs) = map Inr results \<and>
           (\<forall>r \<in> set results. isObservable rx_example (as_observable rx_example r)) \<Longrightarrow>
           f control = Inr (rx_map rx_example mergeErrors
                         (forkJoin rx_example (map (as_observable rx_example) results)))"
    by blast
  have "f ?c = Inr (rx_map rx_example mergeErrors
                         (forkJoin rx_example (map (as_observable rx_example) ?results)))"
    using g[of ?c ?results] r o by blast
  also have "\<dots> = Inr [[Some [(''taken'', JBool True)]]]"
    by (simp add: rx_example_def as_observable_def mergeErrors_def spread2_def assign_all_def
        Object_keys_def)
  finally have 1: "\<exists>f. BindValidators_composeAsync rx_example (Some ?vs) = Some f \<and>
       f ?c = Inr [[Some [(''taken'', JBool True)]]]"
    using f by blast
  have 2: "BindValidators_composeAsync rx_example
     (Some ([None] :: (AbstractBindControl, stream_example) AsyncBindValidatorFn option list))
     = None"
    using composeAsync_joins_observables
      [of rx_example "[None] :: (AbstractBindControl, stream_example) AsyncBindValidatorFn option list"]
    by simp
  have "\<forall>e \<in> set [Some [(''taken'', JBool True)], None]. wf_errors e"
    by (simp add: wf_errors_def wf_object_def)
  with composeAsync_joins_observables[of rx_example ?vs]
  have 3: "error_map (mergeErrors [Some [(''taken'', JBool True)], None])
           = [''taken'' \<mapsto> JBool True]"
    by (simp add: key_union_def error_map_def)
  from 1 2 3 show ?thesis by blast
qed

section \<open>Validators of a bound control\<close>

lemma key_union_fold_None:
  "fold (\<lambda>e m. m ++ error_map e) (map (\<lambda>f. f a) (present_validators vs)) m
   = fold (\<lambda>e m. m ++ error_map e) (map (\<lambda>v. run_validator v a) vs) m"
proof (induction vs arbitrary: m)
  case Nil
  then show ?case by (simp add: present_validators_def)
next
  case (Cons v vs)
  show ?case
  proof (cases v)
    case None
    then show ?thesis using Cons.IH[of m]
      by (simp add: present_validators_def run_validator_def error_map_def)
  next
    case (Some f)
    then show ?thesis using Cons.IH[of "m ++ error_map (f a)"]
      by (simp add: present_validators_def run_validator_def)
  qed
qed

lemma compose_reports_union:
  assumes "\<forall>v \<in> set vs. wf_errors (run_validator v a)"
  shows "error_map (run_validator (BindValidators_compose (Some vs)) a)
         = key_union (map (\<lambda>v. run_validator v a) vs)"
proof (cases "present_validators vs = []")
  case True
  have "key_union (map (\<lambda>v. run_validator v a) vs)
        = key_union (map (\<lambda>f. f a) (present_validators vs))"
    by (simp add: key_union_def key_union_fold_None)
  also have "\<dots> = Map.empty" using True by (simp add: key_union_def)
  finally show ?thesis using True
    by (simp add: BindValidators_compose_def present_validators_code run_validator_def
        error_map_def)
next
  case False
  have wf: "\<forall>e \<in> set (map (\<lambda>f. f a) (present_validators vs)). wf_errors e"
  proof
    fix e assume "e \<in> set (map (\<lambda>f. f a) (present_validators vs))"
    then obtain f where "Some f \<in> set vs" and "e = f a"
      by (auto simp: present_validators_def split: option.splits)
    with assms show "wf_errors e" by (force simp: run_validator_def)
  qed
  have "error_map (run_validator (BindValidators_compose (Some vs)) a)
        = error_map (mergeErrors (map (\<lambda>f. f a) (present_validators vs)))"
    using False by (simp add: BindValidators_compose_def present_validators_code
        run_validator_def executeValidators_def)
  also have "\<dots> = key_union (map (\<lambda>f. f a) (present_validators vs))"
    using mergeErrors_union(1)[OF wf] .
  also have "\<dots> = key_union (map (\<lambda>v. run_validator v a) vs)"
    by (simp add: key_union_def key_union_fold_None)
  finally show ?thesis .
qed

text \<open>
  C6. \<open>setUpControl\<close> throws when the control is absent and when the directive has no
  value accessor. Otherwise, when it returns, the validator of the control is
  \<open>BindValidators.compose\<close> of the control's previous validator and the directive's
  validator, and its asynchronous validator is \<open>BindValidators.composeAsync\<close> of the
  corresponding pair; the bound control reports the error map of its previous validator
  overridden by the error map of the directive's validator. The directive's validator
  is the composition of its raw validators, each normalised: an object with a
  \<open>validate\<close> method becomes the function that calls it, a function stays as it is.
  The directive's asynchronous validator is composed in the same way from its raw
  asynchronous validators, and \<open>normalizeAsyncValidator\<close> normalises them in the
  same way.
\<close>

theorem setUpControl_composes_validators:
  fixes c :: "'r BindFormControl" and dir :: "'r NgBindControl"
  shows
  "setUpControl x None dir = Inl (throwError (path dir) ''Cannot find control with'') \<and>
   (valueAccessor dir = None \<longrightarrow>
      setUpControl x (Some c) dir
        = Inl (throwError (path dir) ''No value accessor for form control with'')) \<and>
   (valueAccessor dir \<noteq> None \<longrightarrow>
      (\<exists>b. setUpControl x (Some c) dir = Inr b \<and>
         validator (control b) = BindValidators_compose (Some [validator c, dir_validator dir]) \<and>
         asyncValidator (control b) =
           BindValidators_composeAsync x (Some [asyncValidator c, dir_asyncValidator x dir]) \<and>
         (\<forall>a. wf_errors (run_validator (validator c) a) \<and>
               wf_errors (run_validator (dir_validator dir) a) \<longrightarrow>
            error_map (run_validator (validator (control b)) a) =
              error_map (run_validator (validator c) a)
                ++ error_map (run_validator (dir_validator dir) a)))) \<and>
   dir_validator dir =
     BindValidators_compose (Some (map (\<lambda>v. Some (normalizeValidator v)) (rawValidators dir))) \<and>
   dir_asyncValidator x dir =
     BindValidators_composeAsync x
       (Some (map (\<lambda>v. Some (normalizeAsyncValidator v)) (rawAsyncValidators dir))) \<and>
   normalizeValidator (ValidatorObject vd r) = vd \<and>
   normalizeValidator (ValidatorFn fn) = fn \<and>
   normalizeAsyncValidator
     (ValidatorObject (avd :: (AbstractBindControl, 'r) AsyncBindValidatorFn) ar) = avd \<and>
   normalizeAsyncValidator
     (ValidatorFn (afn :: (AbstractBindControl, 'r) AsyncBindValidatorFn)) = afn"
proof -
  have trace_only: "control (registerOnValidatorChange_all ws b) = control b"
    for ws :: "'f validator_arg list" and b :: "'r binding"
    unfolding registerOnValidatorChange_all_def
    by (induction ws arbitrary: b)
       (auto simp: call_def split: validator_arg.splits bool.splits)
  have e1: "setUpControl x None dir = Inl (throwError (path dir) ''Cannot find control with'')"
    by (simp add: setUpControl_def)
  have e2: "valueAccessor dir = None \<longrightarrow>
      setUpControl x (Some c) dir
        = Inl (throwError (path dir) ''No value accessor for form control with'')"
    by (simp add: setUpControl_def)
  have ok: "\<exists>b. setUpControl x (Some c) dir = Inr b \<and>
         validator (control b) = BindValidators_compose (Some [validator c, dir_validator dir]) \<and>
         asyncValidator (control b) =
           BindValidators_composeAsync x (Some [asyncValidator c, dir_asyncValidator x dir]) \<and>
         (\<forall>a. wf_errors (run_validator (validator c) a) \<and>
               wf_errors (run_validator (dir_validator dir) a) \<longrightarrow>
            error_map (run_validator (validator (control b)) a) =
              error_map (run_validator (validator c) a)
                ++ error_map (run_validator (dir_validator dir) a))"
    if "valueAccessor dir \<noteq> None"
  proof -
    from that obtain ac where ac: "valueAccessor dir = Some ac" by blast
    obtain b where b: "setUpControl x (Some c) dir = Inr b"
      by (simp add: setUpControl_def ac Let_def)
    have v: "validator (control b) = BindValidators_compose (Some [validator c, dir_validator dir])"
      and av: "asyncValidator (control b) =
           BindValidators_composeAsync x (Some [asyncValidator c, dir_asyncValidator x dir])"
      using b
      by (auto simp: setUpControl_def ac Let_def trace_only call_def
          setUpViewChangePipeline_def setUpModelChangePipeline_def setUpBlurPipeline_def)
    have "error_map (run_validator (validator (control b)) a) =
              error_map (run_validator (validator c) a)
                ++ error_map (run_validator (dir_validator dir) a)"
      if "wf_errors (run_validator (validator c) a) \<and>
               wf_errors (run_validator (dir_validator dir) a)" for a
      using compose_reports_union[of "[validator c, dir_validator dir]" a] that
      by (simp add: v key_union_def)
    with b v av show ?thesis by blast
  qed
  have dv: "dir_validator dir =
     BindValidators_compose (Some (map (\<lambda>v. Some (normalizeValidator v)) (rawValidators dir)))"
    by (simp add: dir_validator_def composeValidators_def)
  have dav: "dir_asyncValidator x dir =
     BindValidators_composeAsync x
       (Some (map (\<lambda>v. Some (normalizeAsyncValidator v)) (rawAsyncValidators dir)))"
    by (simp add: dir_asyncValidator_def composeAsyncValidators_def)
  have nv: "normalizeValidator (ValidatorObject vd r) = vd" "normalizeValidator (ValidatorFn fn) = fn"
    by simp_all
  have nav: "normalizeAsyncValidator (ValidatorObject avd ar) = avd"
    "normalizeAsyncValidator (ValidatorFn afn) = afn"
    by simp_all
  from e1 e2 ok dv dav nv nav show ?thesis by blast
qed

theorem setUpControl_composes_validators_witness:
  "setUpControl rx_example None dir_example
     = Inl (Error (''Cannot find control with name: '' @ [CHR 0x27] @ ''first'' @ [CHR 0x27])) \<and>
   setUpControl rx_example (Some control_example2) (dir_example\<lparr>valueAccessor := None\<rparr>)
     = Inl (Error (''No value accessor for form control with name: '' @ [CHR 0x27] @ ''first''
                   @ [CHR 0x27])) \<and>
   (\<exists>b. setUpControl rx_example (Some control_example2) dir_example = Inr b \<and>
        error_map (run_validator (validator (control b)) \<lparr>value_c = JStr []\<rparr>)
          = [''required'' \<mapsto> JBool True])"
proof -
  let ?a = "\<lparr>value_c = JStr []\<rparr>"
  have p: "path dir_example = [''first'']" "valueAccessor dir_example \<noteq> None"
    "path (dir_example\<lparr>valueAccessor := None\<rparr>) = [''first'']"
    "valueAccessor (dir_example\<lparr>valueAccessor := None\<rparr>) = None"
    by (simp_all add: dir_example_def)
  have m: "throwError [''first''] msg = Error (msg @ '' name: '' @ [CHR 0x27] @ ''first'' @ [CHR 0x27])"
    for msg
    by (simp add: throwError_def)
  have dv: "run_validator (dir_validator dir_example) ?a = Some [(''required'', JBool True)]"
    by (simp add: dir_validator_def composeValidators_def dir_example_def
        BindValidators_compose_def isPresent_def executeValidators_def mergeErrors_def
        spread2_def assign_all_def Object_keys_def run_validator_def
        BindValidators_required_def isEmptyInputValue_def)
  have cv: "run_validator (validator control_example2) ?a = Some [(''required'', JBool True)]"
    by (simp add: control_example2_def run_validator_def BindValidators_requiredTrue_def)
  have wf: "wf_errors (run_validator (validator control_example2) ?a) \<and>
            wf_errors (run_validator (dir_validator dir_example) ?a)"
    by (simp add: dv cv wf_errors_def wf_object_def)
  from setUpControl_composes_validators[of rx_example dir_example control_example2]
  have 1: "setUpControl rx_example None dir_example
     = Inl (Error (''Cannot find control with name: '' @ [CHR 0x27] @ ''first'' @ [CHR 0x27]))"
    by (simp add: p m)
  from setUpControl_composes_validators
    [of rx_example "dir_example\<lparr>valueAccessor := None\<rparr>" control_example2]
  have 2: "setUpControl rx_example (Some control_example2) (dir_example\<lparr>valueAccessor := None\<rparr>)
     = Inl (Error (''No value accessor for form control with name: '' @ [CHR 0x27] @ ''first''
                   @ [CHR 0x27]))"
    by (simp add: p m)
  from setUpControl_composes_validators[of rx_example dir_example control_example2] p(2)
  obtain b where b: "setUpControl rx_example (Some control_example2) dir_example = Inr b"
    and u: "\<And>a. wf_errors (run_validator (validator control_example2) a) \<and>
               wf_errors (run_validator (dir_validator dir_example) a) \<Longrightarrow>
            error_map (run_validator (validator (control b)) a) =
              error_map (run_validator (validator control_example2) a)
                ++ error_map (run_validator (dir_validator dir_example) a)"
    by blast
  have "error_map (run_validator (validator (control b)) ?a) = [''required'' \<mapsto> JBool True]"
    using u[OF wf] by (simp add: dv cv error_map_def)
  with 1 2 b show ?thesis by blast
qed

end
